theory Spec2Isabelle
  imports Complex_Main "HOL-Library.Log_Nat"
begin

section \<open>JavaScript numbers\<close>

text \<open>
  The page keeps \<open>durationSec\<close>, \<open>fps\<close> and \<open>durationMs\<close> as JavaScript numbers, which
  are IEEE 754 doubles: a finite value, \<open>NaN\<close> or one of the two infinities. A finite
  value is given here by the rational it stands for, and the values the program holds
  are those rationals that are doubles. The sign of zero is not kept; nothing in the
  page divides by a zero or prints one.
\<close>

datatype jsnum = Num rat | NaN | PosInf | NegInf

text \<open>
  The result of an arithmetic operation is the double nearest to the exact result, a
  tie going to the double whose last bit is 0, and an infinity when the exact result is
  too large. \<open>roundTiesToEven n d\<close> is the integer nearest to \<open>n / d\<close>, for \<open>d > 0\<close>;
  \<open>binaryExponent n d\<close> is the \<open>e\<close> with \<open>2 ^ e \<le> n / d < 2 ^ (e + 1)\<close>, for \<open>n, d > 0\<close>.
  A double has 53 significant bits, its last bit is worth at least \<open>2 ^ - 1074\<close>, and
  the finite doubles are below \<open>2 ^ 1024\<close>.
\<close>

definition roundTiesToEven :: "int \<Rightarrow> int \<Rightarrow> int" where
  "roundTiesToEven n d =
     (let k = n div d; r = n mod d
      in if 2 * r < d then k else if d < 2 * r then k + 1 else if even k then k else k + 1)"

definition binaryExponent :: "int \<Rightarrow> int \<Rightarrow> int" where
  "binaryExponent n d =
     (let k = bitlen n - bitlen d
      in if (if 0 \<le> k then d * 2 ^ nat k \<le> n else d \<le> n * 2 ^ nat (- k)) then k else k - 1)"

definition nearestDouble :: "rat \<Rightarrow> jsnum" where
  "nearestDouble x =
     (let (p, d) = quotient_of x; n = \<bar>p\<bar>
      in if n = 0 then Num 0
         else
           let s = max (binaryExponent n d - 52) (- 1074);
               m = (if 0 \<le> s then roundTiesToEven n (d * 2 ^ nat s)
                    else roundTiesToEven (n * 2 ^ nat (- s)) d)
           in if 0 \<le> s \<and> 2 ^ 1024 \<le> m * 2 ^ nat s then (if 0 < p then PosInf else NegInf)
              else Num ((if 0 < p then 1 else - 1)
                        * (if 0 \<le> s then of_int (m * 2 ^ nat s)
                           else of_int m / of_int (2 ^ nat (- s)))))"

text \<open>The operator \<open>*\<close> on numbers.\<close>

fun js_mul :: "jsnum \<Rightarrow> jsnum \<Rightarrow> jsnum" where
  "js_mul NaN _ = NaN"
| "js_mul _ NaN = NaN"
| "js_mul (Num a) (Num b) = nearestDouble (a * b)"
| "js_mul (Num a) PosInf = (if a = 0 then NaN else if 0 < a then PosInf else NegInf)"
| "js_mul (Num a) NegInf = (if a = 0 then NaN else if 0 < a then NegInf else PosInf)"
| "js_mul PosInf (Num b) = (if b = 0 then NaN else if 0 < b then PosInf else NegInf)"
| "js_mul NegInf (Num b) = (if b = 0 then NaN else if 0 < b then NegInf else PosInf)"
| "js_mul PosInf PosInf = PosInf"
| "js_mul PosInf NegInf = NegInf"
| "js_mul NegInf PosInf = NegInf"
| "js_mul NegInf NegInf = PosInf"

text \<open>The operator \<open>-\<close> on numbers.\<close>

fun js_sub :: "jsnum \<Rightarrow> jsnum \<Rightarrow> jsnum" where
  "js_sub NaN _ = NaN"
| "js_sub _ NaN = NaN"
| "js_sub (Num a) (Num b) = nearestDouble (a - b)"
| "js_sub (Num a) PosInf = NegInf"
| "js_sub (Num a) NegInf = PosInf"
| "js_sub PosInf (Num b) = PosInf"
| "js_sub NegInf (Num b) = NegInf"
| "js_sub PosInf PosInf = NaN"
| "js_sub PosInf NegInf = PosInf"
| "js_sub NegInf PosInf = NegInf"
| "js_sub NegInf NegInf = NaN"

text \<open>
  \<open>Math.round\<close>: the nearest integer, a tie going up; \<open>NaN\<close> and the infinities stay.
  The nearest integer of a double is a double, so nothing is rounded a second time.
\<close>

fun js_round :: "jsnum \<Rightarrow> jsnum" where
  "js_round (Num a) = Num (of_int \<lfloor>a + 1 / 2\<rfloor>)"
| "js_round x = x"

text \<open>\<open>Math.max\<close> of two numbers: \<open>NaN\<close> as soon as one argument is \<open>NaN\<close>.\<close>

fun js_max :: "jsnum \<Rightarrow> jsnum \<Rightarrow> jsnum" where
  "js_max NaN _ = NaN"
| "js_max _ NaN = NaN"
| "js_max PosInf _ = PosInf"
| "js_max _ PosInf = PosInf"
| "js_max NegInf y = y"
| "js_max x NegInf = x"
| "js_max (Num a) (Num b) = Num (max a b)"

text \<open>The comparison \<open>\<le>\<close> on numbers: false as soon as one side is \<open>NaN\<close>.\<close>

fun js_le :: "jsnum \<Rightarrow> jsnum \<Rightarrow> bool" where
  "js_le NaN _ = False"
| "js_le _ NaN = False"
| "js_le NegInf _ = True"
| "js_le _ PosInf = True"
| "js_le PosInf _ = False"
| "js_le _ NegInf = False"
| "js_le (Num a) (Num b) = (a \<le> b)"

text \<open>The comparison \<open><\<close> on numbers.\<close>

fun js_less :: "jsnum \<Rightarrow> jsnum \<Rightarrow> bool" where
  "js_less NaN _ = False"
| "js_less _ NaN = False"
| "js_less PosInf _ = False"
| "js_less _ NegInf = False"
| "js_less NegInf _ = True"
| "js_less _ PosInf = True"
| "js_less (Num a) (Num b) = (a < b)"

text \<open>A number that is a finite integer.\<close>

fun js_is_integer :: "jsnum \<Rightarrow> bool" where
  "js_is_integer (Num a) = (of_int \<lfloor>a\<rfloor> = a)"
| "js_is_integer _ = False"

section \<open>The recording MIME type\<close>

text \<open>
  The globals the \<open>supported\<close> memo looks at: whether \<open>window\<close> is defined, and
  \<open>MediaRecorder\<close>, which is undefined (\<open>None\<close>) or has the static method
  \<open>isTypeSupported\<close>.
\<close>

record globals =
  windowDefined :: bool
  mediaRecorderGlobal :: "(string \<Rightarrow> bool) option"

definition supported :: "globals \<Rightarrow> string option" where
  "supported g =
     (let mime = ''video/webm;codecs=vp9,opus'' in
      if \<not> windowDefined g then None
      else case mediaRecorderGlobal g of
        None \<Rightarrow> None
      | Some isTypeSupported \<Rightarrow>
          if isTypeSupported mime then Some mime
          else if isTypeSupported ''video/webm;codecs=vp8,opus''
            then Some ''video/webm;codecs=vp8,opus''
          else if isTypeSupported ''video/webm'' then Some ''video/webm''
          else None)"

section \<open>The data of the page\<close>

definition WIDTH :: nat where
  "WIDTH = 1280"

definition HEIGHT :: nat where
  "HEIGHT = 720"

text \<open>
  The type \<open>RecordingState\<close>, a union tagged by \<open>status\<close>: \<open>Recording startedAt\<close>,
  \<open>Done url size fileName durationMs\<close>, \<open>Error message\<close>.
\<close>

datatype RecordingState =
    Idle
  | Recording jsnum
  | Processing
  | Done string nat string jsnum
  | Error string

datatype theme = electric | sunset

text \<open>A \<open>Blob\<close>: its bytes and its \<open>type\<close>; \<open>size\<close> is the number of bytes.\<close>

datatype blob = Blob (blob_bytes: "nat list") (blob_type: string)

definition blob_size :: "blob \<Rightarrow> nat" where
  "blob_size b = length (blob_bytes b)"

text \<open>\<open>new Blob(parts, { type })\<close>: the parts' bytes in order.\<close>

definition newBlob :: "blob list \<Rightarrow> string \<Rightarrow> blob" where
  "newBlob parts ty = Blob (concat (map blob_bytes parts)) ty"

record canvas =
  width :: nat
  height :: nat

datatype stream = MediaStream nat

text \<open>A \<open>MediaRecorder\<close>: its stream and the options it was made with.\<close>

datatype recorder = MediaRecorder stream string nat

text \<open>A thrown value; \<open>message\<close> is what \<open>err?.message\<close> reads (\<open>None\<close>: null or undefined).\<close>

datatype thrown = Thrown (message: "string option")

datatype completion = Returned | Threw thrown

text \<open>What the animation callback \<open>tick\<close> closes over: the arguments of \<open>start\<close>.\<close>

record animation =
  animDurationMs :: jsnum
  animTitle :: string
  animSubtitle :: string
  animTheme :: theme

text \<open>The calls the page makes on the browser and on its own state, in order.\<close>

datatype effect =
    SetState RecordingState
  | CaptureStream canvas jsnum
  | NewMediaRecorder stream string nat
  | RecorderStart nat
  | StartAnimation jsnum string string theme
  | SetTimeout jsnum
  | DrawFrame jsnum string string theme
  | RecorderStop
  | StopAnimation
  | NewBlob "blob list" string
  | CreateObjectURL blob

text \<open>
  The component: its React state (\<open>title\<close> to \<open>state\<close>), the memo \<open>supported\<close>, its refs,
  and of the browser the animation frame that is requested and not yet run
  (\<open>pendingFrame\<close>, with its handle; the hook never has two) and the last handle given
  out. \<open>startTimeRef\<close> only ever holds 0 or a value of \<open>performance.now()\<close>, which is
  finite. \<open>effects\<close> is the log of calls.
\<close>

record page =
  title :: string
  subtitle :: string
  durationSec :: jsnum
  fps :: jsnum
  theme :: theme
  state :: RecordingState
  supportedMime :: "string option"
  canvasRef :: "canvas option"
  rafRef :: "nat option"
  startTimeRef :: rat
  pendingFrame :: "(nat \<times> animation) option"
  lastHandle :: nat
  mediaRecorderRef :: "recorder option"
  chunksRef :: "blob list"
  effects :: "effect list"

text \<open>The page as first rendered, the canvas element given \<open>width={WIDTH} height={HEIGHT}\<close>.\<close>

definition initial_page :: "globals \<Rightarrow> page" where
  "initial_page g =
     \<lparr>title = ''Your YouTube Title'',
      subtitle = ''Subtitle ? Created with Canvas + MediaRecorder'',
      durationSec = Num 6,
      fps = Num 30,
      theme = electric,
      state = Idle,
      supportedMime = supported g,
      canvasRef = Some \<lparr>width = WIDTH, height = HEIGHT\<rparr>,
      rafRef = None,
      startTimeRef = 0,
      pendingFrame = None,
      lastHandle = 0,
      mediaRecorderRef = None,
      chunksRef = [],
      effects = []\<rparr>"

definition emit :: "effect \<Rightarrow> page \<Rightarrow> page" where
  "emit e p = p\<lparr>effects := effects p @ [e]\<rparr>"

definition setState :: "RecordingState \<Rightarrow> page \<Rightarrow> page" where
  "setState s p = emit (SetState s) (p\<lparr>state := s\<rparr>)"

section \<open>The animation hook\<close>

definition cancelAnimationFrame :: "nat \<Rightarrow> page \<Rightarrow> page" where
  "cancelAnimationFrame h p =
     (case pendingFrame p of
        None \<Rightarrow> p
      | Some (h', a) \<Rightarrow> if h' = h then p\<lparr>pendingFrame := None\<rparr> else p)"

text \<open>
  \<open>if (rafRef.current) cancelAnimationFrame(rafRef.current)\<close>: the test passes for a
  handle that is neither null nor 0.
\<close>

definition cancelIfSet :: "page \<Rightarrow> page" where
  "cancelIfSet p =
     (case rafRef p of
        None \<Rightarrow> p
      | Some h \<Rightarrow> if h \<noteq> 0 then cancelAnimationFrame h p else p)"

text \<open>\<open>rafRef.current = requestAnimationFrame(tick)\<close>, handles counting up from 1.\<close>

definition requestAnimationFrame :: "animation \<Rightarrow> page \<Rightarrow> page" where
  "requestAnimationFrame a p =
     (let h = Suc (lastHandle p)
      in p\<lparr>lastHandle := h, pendingFrame := Some (h, a), rafRef := Some h\<rparr>)"

text \<open>
  \<open>start(durationMs, title, subtitle, theme)\<close>, \<open>now\<close> being what \<open>performance.now()\<close>
  returns in it.
\<close>

definition start :: "jsnum \<Rightarrow> string \<Rightarrow> string \<Rightarrow> theme \<Rightarrow> rat \<Rightarrow> page \<Rightarrow> page" where
  "start durationMs ttl sub th now p =
     (let p1 = emit (StartAnimation durationMs ttl sub th) p;
          p2 = cancelIfSet p1;
          p3 = p2\<lparr>startTimeRef := now\<rparr>
      in requestAnimationFrame
           \<lparr>animDurationMs = durationMs, animTitle = ttl, animSubtitle = sub, animTheme = th\<rparr> p3)"

text \<open>
  One run of \<open>tick\<close>, when the browser runs the pending frame at time \<open>now\<close>. The call
  of \<open>drawFrame\<close> is logged with its arguments; the drawing itself and the \<open>progress\<close>
  value that only the drawing reads are not modelled.
\<close>

definition tick :: "rat \<Rightarrow> page \<Rightarrow> page" where
  "tick now p =
     (case pendingFrame p of
        None \<Rightarrow> p
      | Some (h, a) \<Rightarrow>
          (let p1 = p\<lparr>pendingFrame := None\<rparr>;
               elapsed = js_sub (Num now) (Num (startTimeRef p1));
               p2 = emit (DrawFrame elapsed (animTitle a) (animSubtitle a) (animTheme a)) p1
           in if js_less elapsed (animDurationMs a) then requestAnimationFrame a p2
              else p2))"

definition stop :: "page \<Rightarrow> page" where
  "stop p =
     (let p1 = emit StopAnimation p;
          p2 = cancelIfSet p1
      in p2\<lparr>rafRef := None\<rparr>)"

section \<open>The record handler\<close>

text \<open>
  What the browser does during one run of \<open>handleRecord\<close>: the canvas method
  \<open>captureStream\<close> (absent on a browser without it; called, it throws or returns a
  stream or undefined), whether \<open>new MediaRecorder\<close>, \<open>recorder.start\<close> and
  \<open>recorder.stop\<close> throw, the clock readings, the events that run while the handler
  awaits its timer, and \<open>URL.createObjectURL\<close>.
\<close>

datatype async_event = DataAvailable "blob option" | AnimationFrame rat

record browser =
  captureStream :: "(canvas \<Rightarrow> jsnum \<Rightarrow> thrown + stream option) option"
  newMediaRecorder :: "stream \<Rightarrow> string \<Rightarrow> nat \<Rightarrow> thrown option"
  toISOString :: string
  performanceNow :: rat
  recorderStart :: "thrown option"
  startNow :: rat
  whileRecording :: "async_event list"
  recorderStop :: "thrown option"
  createObjectURL :: "blob \<Rightarrow> thrown + string"

text \<open>\<open>recorder.ondataavailable\<close>; \<open>data\<close> is \<open>e.data\<close>, \<open>None\<close> when it is null.\<close>

definition ondataavailable :: "blob option \<Rightarrow> page \<Rightarrow> page" where
  "ondataavailable data p =
     (case data of
        None \<Rightarrow> p
      | Some d \<Rightarrow> if blob_size d > 0 then p\<lparr>chunksRef := chunksRef p @ [d]\<rparr> else p)"

fun async_step :: "page \<Rightarrow> async_event \<Rightarrow> page" where
  "async_step p (DataAvailable data) = ondataavailable data p"
| "async_step p (AnimationFrame now) = tick now p"

text \<open>
  \<open>String.prototype.replaceAll\<close> with a pattern and a replacement of one character
  each, as both calls of the handler have.
\<close>

definition replaceAll :: "char \<Rightarrow> char \<Rightarrow> string \<Rightarrow> string" where
  "replaceAll pat rep s = map (\<lambda>c. if c = pat then rep else c) s"

text \<open>The constant \<open>durationMs\<close> of the handler, from the state \<open>durationSec\<close>.\<close>

definition durationMs :: "jsnum \<Rightarrow> jsnum" where
  "durationMs secs = js_max (Num 1000) (js_round (js_mul secs (Num 1000)))"

text \<open>The constant \<open>fileName\<close> of the handler, from \<open>new Date().toISOString()\<close>.\<close>

definition fileName :: "string \<Rightarrow> string" where
  "fileName stamp =
     ''youtube-720p-''
     @ replaceAll CHR ''.'' CHR ''-'' (replaceAll CHR '':'' CHR ''-'' stamp)
     @ ''.webm''"

text \<open>
  Writing a property of \<open>canvasRef.current!\<close> when it is null throws a TypeError; the
  wording of its message is the engine's.
\<close>

definition nullTypeError :: thrown where
  "nullTypeError = Thrown (Some ''Cannot set properties of null'')"

text \<open>
  The handler from the timer's firing on: \<open>recorder.stop()\<close>, \<open>stop()\<close>, the blob and
  the final state.
\<close>

definition finishRecording :: "browser \<Rightarrow> string \<Rightarrow> string \<Rightarrow> jsnum \<Rightarrow> page \<Rightarrow> completion \<times> page" where
  "finishRecording b mime name dur p =
     (case recorderStop b of
        Some err \<Rightarrow> (Threw err, p)
      | None \<Rightarrow>
          let p1 = emit RecorderStop p;
              p2 = stop p1;
              p3 = setState Processing p2;
              blob = newBlob (chunksRef p3) mime;
              p4 = emit (NewBlob (chunksRef p3) mime) p3
          in (case createObjectURL b blob of
                Inl err \<Rightarrow> (Threw err, p4)
              | Inr url \<Rightarrow>
                  (Returned,
                   setState (Done url (blob_size blob) name dur)
                     (emit (CreateObjectURL blob) p4))))"

text \<open>
  The handler from \<open>chunksRef.current = []\<close> up to the end of the wait, the stream
  being there.
\<close>

definition startRecording :: "browser \<Rightarrow> string \<Rightarrow> stream \<Rightarrow> page \<Rightarrow> completion \<times> page" where
  "startRecording b mime strm p =
     (let p1 = p\<lparr>chunksRef := []\<rparr>
      in (case newMediaRecorder b strm mime 4000000 of
            Some err \<Rightarrow> (Threw err, p1)
          | None \<Rightarrow>
              (let p2 = (emit (NewMediaRecorder strm mime 4000000) p1)
                          \<lparr>mediaRecorderRef := Some (MediaRecorder strm mime 4000000)\<rparr>;
                   dur = durationMs (durationSec p);
                   name = fileName (toISOString b);
                   startedAt = Num (performanceNow b);
                   p3 = setState (Recording startedAt) p2
               in (case recorderStart b of
                     Some err \<Rightarrow> (Threw err, p3)
                   | None \<Rightarrow>
                       (let p4 = emit (RecorderStart 100) p3;
                            p5 = start dur (title p) (subtitle p) (theme p) (startNow b) p4;
                            p6 = emit (SetTimeout dur) p5;
                            p7 = foldl async_step p6 (whileRecording b)
                        in finishRecording b mime name dur p7)))))"

text \<open>The body of the handler's \<open>try\<close> block.\<close>

definition handleRecord_try :: "browser \<Rightarrow> page \<Rightarrow> completion \<times> page" where
  "handleRecord_try b p =
     (case supportedMime p of
        None \<Rightarrow>
          (Returned, setState (Error ''MediaRecorder not supported in this browser.'') p)
      | Some mime \<Rightarrow>
          (case canvasRef p of
             None \<Rightarrow> (Threw nullTypeError, p)
           | Some cv \<Rightarrow>
               let cv1 = cv\<lparr>width := WIDTH, height := HEIGHT\<rparr>;
                   p1 = p\<lparr>canvasRef := Some cv1\<rparr>
               in (case captureStream b of
                     None \<Rightarrow>
                       (Returned, setState (Error ''Canvas captureStream not supported.'') p1)
                   | Some capture \<Rightarrow>
                       (let p2 = emit (CaptureStream cv1 (fps p)) p1
                        in (case capture cv1 (fps p) of
                              Inl err \<Rightarrow> (Threw err, p2)
                            | Inr None \<Rightarrow>
                                (Returned,
                                 setState (Error ''Canvas captureStream not supported.'') p2)
                            | Inr (Some strm) \<Rightarrow> startRecording b mime strm p2)))))"

text \<open>\<open>err?.message ?? "Recording failed."\<close> of the \<open>catch\<close> block.\<close>

definition errorMessage :: "thrown \<Rightarrow> string" where
  "errorMessage err = (case message err of Some m \<Rightarrow> m | None \<Rightarrow> ''Recording failed.'')"

text \<open>
  \<open>handleRecord\<close>: the \<open>try\<close> block and its \<open>catch\<close>. The completion says how the
  promise of the async function settles: \<open>Returned\<close> resolved, \<open>Threw\<close> rejected.
\<close>

definition handleRecord :: "browser \<Rightarrow> page \<Rightarrow> completion \<times> page" where
  "handleRecord b p =
     (case handleRecord_try b p of
        (Returned, p') \<Rightarrow> (Returned, p')
      | (Threw err, p') \<Rightarrow>
          (Returned, setState (Error (errorMessage err)) p'))"

text \<open>\<open>reset\<close>; \<open>stopThrows\<close> is what \<open>stop()\<close> of the recorder in the ref throws, if it does.\<close>

definition reset :: "thrown option \<Rightarrow> page \<Rightarrow> completion \<times> page" where
  "reset stopThrows p =
     (let p1 = setState Idle p;
          p2 = p1\<lparr>chunksRef := []\<rparr>
      in (case mediaRecorderRef p2 of
            None \<Rightarrow> (Returned, p2)
          | Some r \<Rightarrow>
              (case stopThrows of
                 Some err \<Rightarrow> (Threw err, p2)
               | None \<Rightarrow> (Returned, emit RecorderStop p2))))"

section \<open>What is rendered\<close>

text \<open>The two buttons are disabled, and the reset button is there, as the state says.\<close>

definition disabled :: "page \<Rightarrow> bool" where
  "disabled p = (case state p of Recording _ \<Rightarrow> True | Processing \<Rightarrow> True | _ \<Rightarrow> False)"

definition resetClickable :: "page \<Rightarrow> bool" where
  "resetClickable p = (case state p of Idle \<Rightarrow> False | Recording _ \<Rightarrow> False | _ \<Rightarrow> True)"

text \<open>The download link, there in the done state: its \<open>href\<close> and its \<open>download\<close>.\<close>

definition downloadLink :: "page \<Rightarrow> (string \<times> string) option" where
  "downloadLink p = (case state p of Done url sz name dur \<Rightarrow> Some (url, name) | _ \<Rightarrow> None)"

text \<open>
  What can happen to the page: a click on either button, a change of a control, a
  \<open>dataavailable\<close> event of the recorder, an animation frame. One click on the record
  button is one run of the handler to its end, the events during its wait being those
  of \<open>whileRecording\<close>.
\<close>

datatype ui_event =
    ClickRecord browser
  | ClickReset "thrown option"
  | ChangeTitle string
  | ChangeSubtitle string
  | ChangeDuration jsnum
  | ChangeFps jsnum
  | ChangeTheme theme
  | RecorderData "blob option"
  | Frame rat

fun ui_step :: "page \<Rightarrow> ui_event \<Rightarrow> page" where
  "ui_step p (ClickRecord b) = (if disabled p then p else snd (handleRecord b p))"
| "ui_step p (ClickReset stopThrows) =
     (if resetClickable p then snd (reset stopThrows p) else p)"
| "ui_step p (ChangeTitle v) = p\<lparr>title := v\<rparr>"
| "ui_step p (ChangeSubtitle v) = p\<lparr>subtitle := v\<rparr>"
| "ui_step p (ChangeDuration v) = p\<lparr>durationSec := v\<rparr>"
| "ui_step p (ChangeFps v) = p\<lparr>fps := v\<rparr>"
| "ui_step p (ChangeTheme v) = p\<lparr>theme := v\<rparr>"
| "ui_step p (RecorderData data) =
     (case mediaRecorderRef p of None \<Rightarrow> p | Some r \<Rightarrow> ondataavailable data p)"
| "ui_step p (Frame now) = tick now p"

definition run :: "page \<Rightarrow> ui_event list \<Rightarrow> page" where
  "run p evs = foldl ui_step p evs"

section \<open>Runs, traces and sample inputs\<close>

text \<open>The values of the five controls of the page.\<close>

definition controls :: "page \<Rightarrow> string \<times> string \<times> jsnum \<times> jsnum \<times> theme" where
  "controls p = (title p, subtitle p, durationSec p, fps p, theme p)"

text \<open>The calls one run of \<open>handleRecord\<close> adds to the log.\<close>

definition trace :: "browser \<Rightarrow> page \<Rightarrow> effect list" where
  "trace b p = drop (length (effects p)) (effects (snd (handleRecord b p)))"

text \<open>The states set by the calls of a log, in order.\<close>

definition statesSet :: "effect list \<Rightarrow> RecordingState list" where
  "statesSet es = concat (map (\<lambda>e. case e of SetState s \<Rightarrow> [s] | _ \<Rightarrow> []) es)"

definition drawn :: "effect \<Rightarrow> bool" where
  "drawn e = (case e of DrawFrame _ _ _ _ \<Rightarrow> True | _ \<Rightarrow> False)"

text \<open>The calls added by the events of a wait.\<close>

definition asyncFrames :: "page \<Rightarrow> async_event list \<Rightarrow> effect list" where
  "asyncFrames p evs = drop (length (effects p)) (effects (foldl async_step p evs))"

text \<open>
  The calls of \<open>drawFrame\<close> that the events of a wait make in an animation started at
  time \<open>t0\<close> with the closure \<open>a\<close>: a frame event draws when a frame is pending, and a
  frame is pending after it when the elapsed time it drew is less than the duration.
\<close>

fun framesDrawn :: "animation \<Rightarrow> rat \<Rightarrow> bool \<Rightarrow> async_event list \<Rightarrow> effect list" where
  "framesDrawn a t0 pending [] = []"
| "framesDrawn a t0 pending (DataAvailable data # evs) = framesDrawn a t0 pending evs"
| "framesDrawn a t0 pending (AnimationFrame now # evs) =
     (if pending
      then DrawFrame (js_sub (Num now) (Num t0)) (animTitle a) (animSubtitle a) (animTheme a)
           # framesDrawn a t0 (js_less (js_sub (Num now) (Num t0)) (animDurationMs a)) evs
      else framesDrawn a t0 False evs)"

text \<open>The chunks the \<open>dataavailable\<close> events of a wait bring that are not empty.\<close>

definition delivered :: "async_event list \<Rightarrow> blob list" where
  "delivered evs =
     concat (map (\<lambda>ev. case ev of
                          DataAvailable (Some d) \<Rightarrow> if blob_size d > 0 then [d] else []
                        | _ \<Rightarrow> []) evs)"

text \<open>The pending frame, if there is one, is the one whose handle \<open>rafRef\<close> holds.\<close>

definition rafConsistent :: "page \<Rightarrow> bool" where
  "rafConsistent p =
     (case pendingFrame p of None \<Rightarrow> True | Some (h, a) \<Rightarrow> rafRef p = Some h \<and> h \<noteq> 0)"

definition nonEmpty :: "blob \<Rightarrow> bool" where
  "nonEmpty c = (0 < blob_size c)"

text \<open>Every blob a log assembles is assembled from chunks that are not empty.\<close>

definition blobsNonEmpty :: "effect list \<Rightarrow> bool" where
  "blobsNonEmpty es =
     list_all (\<lambda>e. case e of NewBlob cs m \<Rightarrow> list_all nonEmpty cs | _ \<Rightarrow> True) es"

text \<open>The video bit rates and the capture frame rates of the calls of a log.\<close>

definition bitrates :: "effect list \<Rightarrow> nat list" where
  "bitrates es = concat (map (\<lambda>e. case e of NewMediaRecorder s m r \<Rightarrow> [r] | _ \<Rightarrow> []) es)"

definition captureRates :: "effect list \<Rightarrow> jsnum list" where
  "captureRates es = concat (map (\<lambda>e. case e of CaptureStream cv f \<Rightarrow> [f] | _ \<Rightarrow> []) es)"

text \<open>
  The chain of the specification, idle \<rightarrow> recording \<rightarrow> processing \<rightarrow> done/error, as
  positions, and a move forward along it.
\<close>

fun chainRank :: "RecordingState \<Rightarrow> nat" where
  "chainRank Idle = 0"
| "chainRank (Recording t) = 1"
| "chainRank Processing = 2"
| "chainRank (Done u sz n d) = 3"
| "chainRank (Error m) = 3"

definition alongChain :: "RecordingState \<Rightarrow> RecordingState \<Rightarrow> bool" where
  "alongChain s s' = (chainRank s < chainRank s')"

text \<open>
  The range the duration input declares, \<open>min={2}\<close> and \<open>max={60}\<close> seconds, in
  milliseconds.
\<close>

definition withinInputRange :: "jsnum \<Rightarrow> bool" where
  "withinInputRange ms = (js_le (Num 2000) ms \<and> js_le ms (Num 60000))"

text \<open>
  A browser with VP8 but no VP9, and a run in it: three animation frames and four
  \<open>dataavailable\<close> events, of which two bring bytes.
\<close>

definition demo_globals :: globals where
  "demo_globals =
     \<lparr>windowDefined = True,
      mediaRecorderGlobal = Some (\<lambda>m. m \<noteq> ''video/webm;codecs=vp9,opus'')\<rparr>"

definition demo_browser :: browser where
  "demo_browser =
     \<lparr>captureStream = Some (\<lambda>cv f. Inr (Some (MediaStream 1))),
      newMediaRecorder = (\<lambda>strm mime rate. None),
      toISOString = ''2026-11-02T03:15:27.123Z'',
      performanceNow = 5000,
      recorderStart = None,
      startNow = 5001,
      whileRecording =
        [AnimationFrame 5017,
         DataAvailable (Some (Blob [26, 69, 223] ''video/webm'')),
         DataAvailable (Some (Blob [] ''video/webm'')),
         DataAvailable None,
         AnimationFrame 11002,
         DataAvailable (Some (Blob [163, 129] ''video/webm'')),
         AnimationFrame 11019],
      recorderStop = None,
      createObjectURL = (\<lambda>bl. Inr ''blob:demo'')\<rparr>"

text \<open>The first page after the user has changed every control.\<close>

definition changed_page :: page where
  "changed_page =
     run (initial_page demo_globals)
       [ChangeTitle ''Clip'', ChangeSubtitle ''Take 2'', ChangeDuration (Num 10),
        ChangeFps (Num 60), ChangeTheme sunset]"

text \<open>The page after one click on the record button in the sample browser.\<close>

definition recorded_page :: page where
  "recorded_page = run (initial_page demo_globals) [ClickRecord demo_browser]"

text \<open>A browser whose \<open>MediaRecorder\<close> constructor throws.\<close>

definition failing_browser :: browser where
  "failing_browser =
     demo_browser\<lparr>newMediaRecorder := (\<lambda>strm mime rate. Some (Thrown (Some ''NotSupportedError'')))\<rparr>"


section \<open>Properties\<close>

subsection \<open>What each operation leaves alone\<close>

lemma emit_simps [simp]:
  "effects (emit e p) = effects p @ [e]"
  "state (emit e p) = state p"
  "chunksRef (emit e p) = chunksRef p"
  "rafRef (emit e p) = rafRef p"
  "pendingFrame (emit e p) = pendingFrame p"
  "canvasRef (emit e p) = canvasRef p"
  "mediaRecorderRef (emit e p) = mediaRecorderRef p"
  "title (emit e p) = title p"
  "subtitle (emit e p) = subtitle p"
  "theme (emit e p) = theme p"
  "durationSec (emit e p) = durationSec p"
  "fps (emit e p) = fps p"
  "supportedMime (emit e p) = supportedMime p"
  by (simp_all add: emit_def)

lemma setState_simps [simp]:
  "effects (setState s p) = effects p @ [SetState s]"
  "state (setState s p) = s"
  "chunksRef (setState s p) = chunksRef p"
  "rafRef (setState s p) = rafRef p"
  "pendingFrame (setState s p) = pendingFrame p"
  "canvasRef (setState s p) = canvasRef p"
  "mediaRecorderRef (setState s p) = mediaRecorderRef p"
  "supportedMime (setState s p) = supportedMime p"
  by (simp_all add: setState_def)

lemma cancelIfSet_simps [simp]:
  "effects (cancelIfSet p) = effects p"
  "state (cancelIfSet p) = state p"
  "chunksRef (cancelIfSet p) = chunksRef p"
  "rafRef (cancelIfSet p) = rafRef p"
  "canvasRef (cancelIfSet p) = canvasRef p"
  "mediaRecorderRef (cancelIfSet p) = mediaRecorderRef p"
  "supportedMime (cancelIfSet p) = supportedMime p"
  by (simp_all add: cancelIfSet_def cancelAnimationFrame_def split: option.splits prod.splits)

lemma start_simps [simp]:
  "effects (start d t s th now p) = effects p @ [StartAnimation d t s th]"
  "state (start d t s th now p) = state p"
  "chunksRef (start d t s th now p) = chunksRef p"
  "canvasRef (start d t s th now p) = canvasRef p"
  "mediaRecorderRef (start d t s th now p) = mediaRecorderRef p"
  "supportedMime (start d t s th now p) = supportedMime p"
  by (simp_all add: start_def requestAnimationFrame_def Let_def)

lemma rafConsistent_start: "rafConsistent (start d t s th now p)"
  by (simp add: start_def requestAnimationFrame_def Let_def rafConsistent_def)

lemma stop_simps [simp]:
  "effects (stop p) = effects p @ [StopAnimation]"
  "state (stop p) = state p"
  "chunksRef (stop p) = chunksRef p"
  "rafRef (stop p) = None"
  "canvasRef (stop p) = canvasRef p"
  "mediaRecorderRef (stop p) = mediaRecorderRef p"
  "supportedMime (stop p) = supportedMime p"
  by (simp_all add: stop_def Let_def)

lemma pendingFrame_stop: "rafConsistent p \<Longrightarrow> pendingFrame (stop p) = None"
  by (auto simp: stop_def Let_def rafConsistent_def cancelIfSet_def cancelAnimationFrame_def
      emit_def split: option.splits prod.splits)

lemma tick_simps [simp]:
  "state (tick now p) = state p"
  "chunksRef (tick now p) = chunksRef p"
  "canvasRef (tick now p) = canvasRef p"
  "mediaRecorderRef (tick now p) = mediaRecorderRef p"
  "supportedMime (tick now p) = supportedMime p"
  by (simp_all add: tick_def requestAnimationFrame_def Let_def split: option.splits prod.splits)

lemma effects_tick: "\<exists>fs. effects (tick now p) = effects p @ fs \<and> list_all drawn fs"
  by (auto simp: tick_def requestAnimationFrame_def Let_def drawn_def
      split: option.splits prod.splits)

lemma rafConsistent_tick: "rafConsistent p \<Longrightarrow> rafConsistent (tick now p)"
  by (auto simp: tick_def requestAnimationFrame_def Let_def rafConsistent_def emit_def
      split: option.splits prod.splits)

lemma ondataavailable_simps [simp]:
  "effects (ondataavailable d p) = effects p"
  "state (ondataavailable d p) = state p"
  "rafRef (ondataavailable d p) = rafRef p"
  "pendingFrame (ondataavailable d p) = pendingFrame p"
  "canvasRef (ondataavailable d p) = canvasRef p"
  "mediaRecorderRef (ondataavailable d p) = mediaRecorderRef p"
  "supportedMime (ondataavailable d p) = supportedMime p"
  by (simp_all add: ondataavailable_def split: option.splits)

lemma rafConsistent_ondataavailable: "rafConsistent (ondataavailable d p) = rafConsistent p"
  by (simp add: rafConsistent_def split: option.splits prod.splits)

lemma rafConsistent_emit [simp]: "rafConsistent (emit e p) = rafConsistent p"
  by (simp add: rafConsistent_def split: option.splits prod.splits)

lemma async_step_simps [simp]:
  "state (async_step p ev) = state p"
  "canvasRef (async_step p ev) = canvasRef p"
  "mediaRecorderRef (async_step p ev) = mediaRecorderRef p"
  "supportedMime (async_step p ev) = supportedMime p"
  by (cases ev; simp)+

lemma effects_async_step:
  "\<exists>fs. effects (async_step p ev) = effects p @ fs \<and> list_all drawn fs"
  by (cases ev) (simp_all add: effects_tick)

lemma rafConsistent_async_step: "rafConsistent p \<Longrightarrow> rafConsistent (async_step p ev)"
  by (cases ev) (simp_all add: rafConsistent_tick rafConsistent_ondataavailable)

lemma foldl_async_simps [simp]:
  "state (foldl async_step p evs) = state p"
  "canvasRef (foldl async_step p evs) = canvasRef p"
  "mediaRecorderRef (foldl async_step p evs) = mediaRecorderRef p"
  "supportedMime (foldl async_step p evs) = supportedMime p"
  by (induction evs arbitrary: p; simp)+

lemma effects_foldl_async:
  "\<exists>fs. effects (foldl async_step p evs) = effects p @ fs \<and> list_all drawn fs"
proof (induction evs arbitrary: p)
  case Nil
  then show ?case by simp
next
  case (Cons ev evs)
  obtain fs where fs: "effects (async_step p ev) = effects p @ fs" "list_all drawn fs"
    using effects_async_step by blast
  obtain gs where gs: "effects (foldl async_step (async_step p ev) evs)
      = effects (async_step p ev) @ gs" "list_all drawn gs"
    using Cons.IH by blast
  show ?case
    using fs gs by (intro exI [of _ "fs @ gs"]) simp
qed

lemma asyncFrames:
  "effects (foldl async_step p evs) = effects p @ asyncFrames p evs"
  "list_all drawn (asyncFrames p evs)"
proof -
  obtain fs where fs: "effects (foldl async_step p evs) = effects p @ fs" "list_all drawn fs"
    using effects_foldl_async by blast
  then have "asyncFrames p evs = fs"
    by (simp add: asyncFrames_def)
  with fs show "effects (foldl async_step p evs) = effects p @ asyncFrames p evs"
    and "list_all drawn (asyncFrames p evs)"
    by simp_all
qed

lemma rafConsistent_foldl_async:
  "rafConsistent p \<Longrightarrow> rafConsistent (foldl async_step p evs)"
  by (induction evs arbitrary: p) (simp_all add: rafConsistent_async_step)

lemma chunksRef_foldl_async [simp]:
  "chunksRef (foldl async_step p evs) = chunksRef p @ delivered evs"
proof (induction evs arbitrary: p)
  case Nil
  then show ?case by (simp add: delivered_def)
next
  case (Cons ev evs)
  have "chunksRef (async_step p ev) = chunksRef p @ delivered [ev]"
    by (cases ev) (auto simp: delivered_def ondataavailable_def split: option.splits)
  then show ?case
    using Cons.IH [of "async_step p ev"] by (simp add: delivered_def)
qed

lemma nonEmpty_delivered: "list_all nonEmpty (delivered evs)"
  by (induction evs)
     (auto simp: delivered_def nonEmpty_def split: async_event.splits option.splits)

lemma nearestDouble_not_NaN [simp]: "nearestDouble x \<noteq> NaN"
  by (simp add: nearestDouble_def Let_def split: prod.splits)

lemma durationMs_shape:
  assumes "x \<noteq> NaN"
  shows "durationMs x = PosInf \<or> (\<exists>n\<ge>1000. durationMs x = Num (of_int n))"
proof (cases x)
  case (Num a)
  show ?thesis
  proof (cases "nearestDouble (a * 1000)")
    case (Num r)
    have "max 1000 (rat_of_int \<lfloor>r + 1 / 2\<rfloor>) = of_int (max 1000 \<lfloor>r + 1 / 2\<rfloor>)"
      by (simp add: max_def)
    with Num \<open>x = Num a\<close> show ?thesis
      by (auto simp: durationMs_def intro!: exI [of _ "max 1000 \<lfloor>r + 1 / 2\<rfloor>"])
  next
    case NaN
    then show ?thesis by simp
  next
    case PosInf
    with \<open>x = Num a\<close> show ?thesis by (simp add: durationMs_def)
  next
    case NegInf
    with \<open>x = Num a\<close> show ?thesis
      by (auto simp: durationMs_def intro!: exI [of _ 1000])
  qed
next
  case NaN
  with assms show ?thesis by simp
next
  case PosInf
  then show ?thesis by (simp add: durationMs_def)
next
  case NegInf
  then show ?thesis by (auto simp: durationMs_def intro!: exI [of _ 1000])
qed

lemma tick_pending:
  assumes "pendingFrame q = Some (h, a)"
  shows "effects (tick now q) = effects q @
           [DrawFrame (js_sub (Num now) (Num (startTimeRef q)))
              (animTitle a) (animSubtitle a) (animTheme a)]"
    and "startTimeRef (tick now q) = startTimeRef q"
    and "pendingFrame (tick now q) =
           (if js_less (js_sub (Num now) (Num (startTimeRef q))) (animDurationMs a)
            then Some (Suc (lastHandle q), a) else None)"
  using assms by (simp_all add: tick_def requestAnimationFrame_def emit_def Let_def)

lemma tick_idle: "pendingFrame q = None \<Longrightarrow> tick now q = q"
  by (simp add: tick_def)

lemma startTimeRef_ondataavailable [simp]:
  "startTimeRef (ondataavailable d q) = startTimeRef q"
  by (simp add: ondataavailable_def split: option.splits)

lemma effects_wait:
  assumes "if pending then (\<exists>h. pendingFrame q = Some (h, a)) else pendingFrame q = None"
  shows "effects (foldl async_step q evs) = effects q @ framesDrawn a (startTimeRef q) pending evs"
  using assms
proof (induction evs arbitrary: q pending)
  case Nil
  then show ?case by simp
next
  case (Cons ev evs)
  show ?case
  proof (cases ev)
    case (DataAvailable d)
    with Cons.prems
    have "if pending then (\<exists>h. pendingFrame (async_step q ev) = Some (h, a))
          else pendingFrame (async_step q ev) = None"
      by simp
    from Cons.IH [OF this] DataAvailable show ?thesis
      by simp
  next
    case (AnimationFrame now)
    show ?thesis
    proof (cases pending)
      case True
      with Cons.prems obtain h where h: "pendingFrame q = Some (h, a)"
        by auto
      let ?next = "js_less (js_sub (Num now) (Num (startTimeRef q))) (animDurationMs a)"
      have "if ?next then (\<exists>h. pendingFrame (async_step q ev) = Some (h, a))
            else pendingFrame (async_step q ev) = None"
        using AnimationFrame tick_pending(3) [OF h, of now] by simp
      from Cons.IH [OF this] AnimationFrame True tick_pending(1,2) [OF h, of now]
      show ?thesis
        by simp
    next
      case False
      with Cons.prems have idle: "pendingFrame q = None"
        by simp
      then have "if False then (\<exists>h. pendingFrame (async_step q ev) = Some (h, a))
            else pendingFrame (async_step q ev) = None"
        using AnimationFrame by (simp add: tick_idle)
      from Cons.IH [OF this] AnimationFrame False idle show ?thesis
        by (simp add: tick_idle)
    qed
  qed
qed

lemma start_state:
  "pendingFrame (start d t u th now q) =
     Some (Suc (lastHandle q),
           \<lparr>animDurationMs = d, animTitle = t, animSubtitle = u, animTheme = th\<rparr>)"
  "startTimeRef (start d t u th now q) = now"
  by (simp_all add: start_def requestAnimationFrame_def emit_def cancelIfSet_def
      cancelAnimationFrame_def Let_def split: option.splits prod.splits)

lemma effects_wait_start:
  "effects (foldl async_step (emit e (start d t u th now q)) evs) =
     effects q @ [StartAnimation d t u th, e]
     @ framesDrawn \<lparr>animDurationMs = d, animTitle = t, animSubtitle = u, animTheme = th\<rparr>
         now True evs"
proof -
  let ?q = "emit e (start d t u th now q)"
  let ?a = "\<lparr>animDurationMs = d, animTitle = t, animSubtitle = u, animTheme = th\<rparr>"
  have "if True then (\<exists>h. pendingFrame ?q = Some (h, ?a)) else pendingFrame ?q = None"
    by (simp add: start_state)
  from effects_wait [OF this, of evs] show ?thesis
    by (simp add: emit_def start_state)
qed

lemma canvas_resized [simp]:
  "(cv :: canvas)\<lparr>width := w, height := h\<rparr> = \<lparr>width = w, height = h\<rparr>"
  by (cases cv) simp

lemmas handler_defs =
  handleRecord_def handleRecord_try_def startRecording_def finishRecording_def Let_def

lemmas handler_splits =
  option.splits sum.splits prod.splits completion.splits

subsection \<open>The ten ways a run of the handler can go\<close>

lemma handleRecord_cases
  [case_names unsupported nocanvas nocapture capturethrows nostream ctorthrows startthrows
     stopthrows urlthrows finished]:
  fixes b :: browser and p :: page
  defines "cap \<equiv> CaptureStream \<lparr>width = WIDTH, height = HEIGHT\<rparr> (fps p)"
    and "dur \<equiv> durationMs (durationSec p)"
    and "chunks \<equiv> delivered (whileRecording b)"
  obtains
    (unsupported) "supportedMime p = None"
      "fst (handleRecord_try b p) = Returned"
      "trace b p = [SetState (Error ''MediaRecorder not supported in this browser.'')]"
      "state (snd (handleRecord b p)) = Error ''MediaRecorder not supported in this browser.''"
      "chunksRef (snd (handleRecord b p)) = chunksRef p"
      "canvasRef (snd (handleRecord b p)) = canvasRef p"
  | (nocanvas) mime where "supportedMime p = Some mime" "canvasRef p = None"
      "fst (handleRecord_try b p) = Threw nullTypeError"
      "trace b p = [SetState (Error (errorMessage nullTypeError))]"
      "state (snd (handleRecord b p)) = Error (errorMessage nullTypeError)"
      "chunksRef (snd (handleRecord b p)) = chunksRef p"
  | (nocapture) mime cv where "supportedMime p = Some mime" "canvasRef p = Some cv"
      "captureStream b = None"
      "fst (handleRecord_try b p) = Returned"
      "trace b p = [SetState (Error ''Canvas captureStream not supported.'')]"
      "state (snd (handleRecord b p)) = Error ''Canvas captureStream not supported.''"
      "chunksRef (snd (handleRecord b p)) = chunksRef p"
      "canvasRef (snd (handleRecord b p)) = Some \<lparr>width = WIDTH, height = HEIGHT\<rparr>"
  | (capturethrows) mime cv capture err where "supportedMime p = Some mime"
      "canvasRef p = Some cv" "captureStream b = Some capture"
      "capture \<lparr>width = WIDTH, height = HEIGHT\<rparr> (fps p) = Inl err"
      "fst (handleRecord_try b p) = Threw err"
      "trace b p = [cap, SetState (Error (errorMessage err))]"
      "state (snd (handleRecord b p)) = Error (errorMessage err)"
      "chunksRef (snd (handleRecord b p)) = chunksRef p"
      "canvasRef (snd (handleRecord b p)) = Some \<lparr>width = WIDTH, height = HEIGHT\<rparr>"
  | (nostream) mime cv capture where "supportedMime p = Some mime"
      "canvasRef p = Some cv" "captureStream b = Some capture"
      "capture \<lparr>width = WIDTH, height = HEIGHT\<rparr> (fps p) = Inr None"
      "fst (handleRecord_try b p) = Returned"
      "trace b p = [cap, SetState (Error ''Canvas captureStream not supported.'')]"
      "state (snd (handleRecord b p)) = Error ''Canvas captureStream not supported.''"
      "chunksRef (snd (handleRecord b p)) = chunksRef p"
      "canvasRef (snd (handleRecord b p)) = Some \<lparr>width = WIDTH, height = HEIGHT\<rparr>"
  | (ctorthrows) mime cv capture strm err where "supportedMime p = Some mime"
      "canvasRef p = Some cv" "captureStream b = Some capture"
      "capture \<lparr>width = WIDTH, height = HEIGHT\<rparr> (fps p) = Inr (Some strm)"
      "newMediaRecorder b strm mime 4000000 = Some err"
      "fst (handleRecord_try b p) = Threw err"
      "trace b p = [cap, SetState (Error (errorMessage err))]"
      "state (snd (handleRecord b p)) = Error (errorMessage err)"
      "chunksRef (snd (handleRecord b p)) = []"
      "canvasRef (snd (handleRecord b p)) = Some \<lparr>width = WIDTH, height = HEIGHT\<rparr>"
  | (startthrows) mime cv capture strm err where "supportedMime p = Some mime"
      "canvasRef p = Some cv" "captureStream b = Some capture"
      "capture \<lparr>width = WIDTH, height = HEIGHT\<rparr> (fps p) = Inr (Some strm)"
      "newMediaRecorder b strm mime 4000000 = None" "recorderStart b = Some err"
      "fst (handleRecord_try b p) = Threw err"
      "trace b p =
         [cap, NewMediaRecorder strm mime 4000000, SetState (Recording (Num (performanceNow b))),
          SetState (Error (errorMessage err))]"
      "state (snd (handleRecord b p)) = Error (errorMessage err)"
      "chunksRef (snd (handleRecord b p)) = []"
      "canvasRef (snd (handleRecord b p)) = Some \<lparr>width = WIDTH, height = HEIGHT\<rparr>"
  | (stopthrows) mime cv capture strm err frames where "supportedMime p = Some mime"
      "canvasRef p = Some cv" "captureStream b = Some capture"
      "capture \<lparr>width = WIDTH, height = HEIGHT\<rparr> (fps p) = Inr (Some strm)"
      "newMediaRecorder b strm mime 4000000 = None" "recorderStart b = None"
      "recorderStop b = Some err"
      "fst (handleRecord_try b p) = Threw err"
      "list_all drawn frames"
      "trace b p =
         [cap, NewMediaRecorder strm mime 4000000, SetState (Recording (Num (performanceNow b))),
          RecorderStart 100, StartAnimation dur (title p) (subtitle p) (theme p), SetTimeout dur]
         @ frames @ [SetState (Error (errorMessage err))]"
      "state (snd (handleRecord b p)) = Error (errorMessage err)"
      "chunksRef (snd (handleRecord b p)) = chunks"
      "canvasRef (snd (handleRecord b p)) = Some \<lparr>width = WIDTH, height = HEIGHT\<rparr>"
  | (urlthrows) mime cv capture strm err frames where "supportedMime p = Some mime"
      "canvasRef p = Some cv" "captureStream b = Some capture"
      "capture \<lparr>width = WIDTH, height = HEIGHT\<rparr> (fps p) = Inr (Some strm)"
      "newMediaRecorder b strm mime 4000000 = None" "recorderStart b = None"
      "recorderStop b = None" "createObjectURL b (newBlob chunks mime) = Inl err"
      "fst (handleRecord_try b p) = Threw err"
      "list_all drawn frames"
      "trace b p =
         [cap, NewMediaRecorder strm mime 4000000, SetState (Recording (Num (performanceNow b))),
          RecorderStart 100, StartAnimation dur (title p) (subtitle p) (theme p), SetTimeout dur]
         @ frames @
         [RecorderStop, StopAnimation, SetState Processing, NewBlob chunks mime,
          SetState (Error (errorMessage err))]"
      "state (snd (handleRecord b p)) = Error (errorMessage err)"
      "chunksRef (snd (handleRecord b p)) = chunks"
      "canvasRef (snd (handleRecord b p)) = Some \<lparr>width = WIDTH, height = HEIGHT\<rparr>"
  | (finished) mime cv capture strm url frames where "supportedMime p = Some mime"
      "canvasRef p = Some cv" "captureStream b = Some capture"
      "capture \<lparr>width = WIDTH, height = HEIGHT\<rparr> (fps p) = Inr (Some strm)"
      "newMediaRecorder b strm mime 4000000 = None" "recorderStart b = None"
      "recorderStop b = None" "createObjectURL b (newBlob chunks mime) = Inr url"
      "fst (handleRecord_try b p) = Returned"
      "list_all drawn frames"
      "trace b p =
         [cap, NewMediaRecorder strm mime 4000000, SetState (Recording (Num (performanceNow b))),
          RecorderStart 100, StartAnimation dur (title p) (subtitle p) (theme p), SetTimeout dur]
         @ frames @
         [RecorderStop, StopAnimation, SetState Processing, NewBlob chunks mime,
          CreateObjectURL (newBlob chunks mime),
          SetState (Done url (blob_size (newBlob chunks mime)) (fileName (toISOString b)) dur)]"
      "state (snd (handleRecord b p)) =
         Done url (blob_size (newBlob chunks mime)) (fileName (toISOString b)) dur"
      "chunksRef (snd (handleRecord b p)) = chunks"
      "canvasRef (snd (handleRecord b p)) = Some \<lparr>width = WIDTH, height = HEIGHT\<rparr>"
      "rafRef (snd (handleRecord b p)) = None"
      "pendingFrame (snd (handleRecord b p)) = None"
proof (cases "supportedMime p")
  case None
  then show thesis
    by (intro unsupported) (simp_all add: trace_def handler_defs)
next
  case mime: (Some mime)
  show thesis
  proof (cases "canvasRef p")
    case None
    with mime show thesis
      by (intro nocanvas [of mime]) (simp_all add: trace_def handler_defs)
  next
    case cv: (Some cv)
    show thesis
    proof (cases "captureStream b")
      case None
      with mime cv show thesis
        by (intro nocapture [of mime cv]) (simp_all add: trace_def handler_defs)
    next
      case capture: (Some capture)
      note pre = mime cv capture
      show thesis
      proof (cases "capture \<lparr>width = WIDTH, height = HEIGHT\<rparr> (fps p)")
        case (Inl err)
        with pre show thesis
          by (intro capturethrows [of mime cv capture err])
             (simp_all add: trace_def handler_defs cap_def)
      next
        case (Inr res)
        show thesis
        proof (cases res)
          case None
          with pre Inr show thesis
            by (intro nostream [of mime cv capture]) (simp_all add: trace_def handler_defs cap_def)
        next
          case (Some strm)
          with Inr have strm: "capture \<lparr>width = WIDTH, height = HEIGHT\<rparr> (fps p) = Inr (Some strm)"
            by simp
          note pre = pre strm
          show thesis
          proof (cases "newMediaRecorder b strm mime 4000000")
            case (Some err)
            with pre show thesis
              by (intro ctorthrows [of mime cv capture strm err])
                 (simp_all add: trace_def handler_defs cap_def)
          next
            case ctor: None
            note pre = pre ctor
            show thesis
            proof (cases "recorderStart b")
              case (Some err)
              with pre show thesis
                by (intro startthrows [of mime cv capture strm err])
                   (simp_all add: trace_def handler_defs cap_def)
            next
              case started: None
              note pre = pre started
              define frames where "frames =
                asyncFrames
                  (emit (SetTimeout dur)
                    (start dur (title p) (subtitle p) (theme p) (startNow b)
                      (emit (RecorderStart 100)
                        (setState (Recording (Num (performanceNow b)))
                          ((emit (NewMediaRecorder strm mime 4000000)
                             ((emit cap (p\<lparr>canvasRef := Some \<lparr>width = WIDTH, height = HEIGHT\<rparr>\<rparr>))
                                \<lparr>chunksRef := []\<rparr>))
                           \<lparr>mediaRecorderRef := Some (MediaRecorder strm mime 4000000)\<rparr>)))))
                  (whileRecording b)"
              have frames: "list_all drawn frames"
                unfolding frames_def by (rule asyncFrames(2))
              show thesis
              proof (cases "recorderStop b")
                case (Some err)
                with pre frames show thesis
                  by (intro stopthrows [of mime cv capture strm err frames])
                     (simp_all add: trace_def handler_defs cap_def dur_def chunks_def
                        asyncFrames(1) frames_def)
              next
                case stopped: None
                note pre = pre stopped
                show thesis
                proof (cases "createObjectURL b (newBlob chunks mime)")
                  case (Inl err)
                  with pre frames show thesis
                    by (intro urlthrows [of mime cv capture strm err frames])
                       (simp_all add: trace_def handler_defs cap_def dur_def chunks_def
                          asyncFrames(1) frames_def)
                next
                  case (Inr url)
                  with pre frames show thesis
                    by (intro finished [of mime cv capture strm url frames])
                       (simp_all add: trace_def handler_defs cap_def dur_def chunks_def
                          asyncFrames(1) frames_def pendingFrame_stop rafConsistent_foldl_async
                          rafConsistent_start)
                qed
              qed
            qed
          qed
        qed
      qed
    qed
  qed
qed


subsection \<open>The sample runs\<close>

lemma demo_supported: "supported demo_globals = Some ''video/webm;codecs=vp8,opus''"
  by (simp add: supported_def demo_globals_def)

lemma demo_delivered:
  "delivered (whileRecording demo_browser)
     = [Blob [26, 69, 223] ''video/webm'', Blob [163, 129] ''video/webm'']"
  by (simp add: demo_browser_def delivered_def blob_size_def)

lemma demo_blob:
  "newBlob (delivered (whileRecording demo_browser)) m = Blob [26, 69, 223, 163, 129] m"
  by (simp add: demo_delivered newBlob_def)

lemma durationMs_6: "durationMs (Num 6) = Num 6000"
  by code_simp

lemma durationMs_100: "durationMs (Num 100) = Num 100000"
  by code_simp

lemma durationMs_10: "durationMs (Num 10) = Num 10000"
  by code_simp

text \<open>
  At the double nearest to 2.0025 the product with 1000 is rounded to 2002.5 before
  \<open>Math.round\<close> sees it, and at the double \<open>2 ^ 1023\<close> the product is too large.
\<close>

lemma durationMs_rounds_the_product:
  "durationMs (Num (4509229126904709 / 2251799813685248)) = Num 2003"
  by code_simp

lemma durationMs_overflows: "durationMs (Num (of_int (2 ^ 1023))) = PosInf"
  by code_simp

lemma demo_elapsed:
  "nearestDouble 16 = Num 16"
  "nearestDouble 6001 = Num 6001"
  "nearestDouble 6018 = Num 6018"
  by code_simp+

lemma demo_frames_6000:
  "framesDrawn \<lparr>animDurationMs = Num 6000, animTitle = t, animSubtitle = u, animTheme = th\<rparr>
     5001 True (whileRecording demo_browser)
   = [DrawFrame (Num 16) t u th, DrawFrame (Num 6001) t u th]"
  by (simp add: demo_browser_def demo_elapsed)

lemma demo_frames_10000:
  "framesDrawn \<lparr>animDurationMs = Num 10000, animTitle = t, animSubtitle = u, animTheme = th\<rparr>
     5001 True (whileRecording demo_browser)
   = [DrawFrame (Num 16) t u th, DrawFrame (Num 6001) t u th, DrawFrame (Num 6018) t u th]"
  by (simp add: demo_browser_def demo_elapsed)

lemma demo_fileName:
  "fileName (toISOString demo_browser) = ''youtube-720p-2026-11-02T03-15-27-123Z.webm''"
  by (simp add: fileName_def replaceAll_def demo_browser_def)

lemma demo_fields:
  "captureStream demo_browser = Some (\<lambda>cv f. Inr (Some (MediaStream 1)))"
  "newMediaRecorder demo_browser strm m r = None"
  "recorderStart demo_browser = None"
  "recorderStop demo_browser = None"
  "createObjectURL demo_browser bl = Inr ''blob:demo''"
  "performanceNow demo_browser = 5000"
  by (simp_all add: demo_browser_def)

lemma handleRecord_success:
  assumes "supportedMime p = Some mime" and "canvasRef p = Some cv"
    and "captureStream b = Some capture"
    and "capture \<lparr>width = WIDTH, height = HEIGHT\<rparr> (fps p) = Inr (Some strm)"
    and "newMediaRecorder b strm mime 4000000 = None"
    and "recorderStart b = None" and "recorderStop b = None"
    and "createObjectURL b (newBlob (delivered (whileRecording b)) mime) = Inr url"
  shows "state (snd (handleRecord b p)) =
     Done url (blob_size (newBlob (delivered (whileRecording b)) mime))
       (fileName (toISOString b)) (durationMs (durationSec p))"
  using assms by (cases b p rule: handleRecord_cases) simp_all

lemma demo_success:
  assumes "supportedMime p = Some mime" and "canvasRef p \<noteq> None"
  shows "state (snd (handleRecord demo_browser p)) =
     Done ''blob:demo'' 5 ''youtube-720p-2026-11-02T03-15-27-123Z.webm''
       (durationMs (durationSec p))"
proof -
  from assms obtain cv where cv: "canvasRef p = Some cv"
    by auto
  have "state (snd (handleRecord demo_browser p)) =
     Done ''blob:demo'' (blob_size (newBlob (delivered (whileRecording demo_browser)) mime))
       (fileName (toISOString demo_browser)) (durationMs (durationSec p))"
    by (rule handleRecord_success [OF assms(1) cv, where
          capture = "\<lambda>cv f. Inr (Some (MediaStream 1))" and strm = "MediaStream 1"])
       (simp_all add: demo_browser_def)
  then show ?thesis
    by (simp add: demo_blob demo_fileName blob_size_def)
qed

lemma initial_page_fields:
  "supportedMime (initial_page g) = supported g"
  "canvasRef (initial_page g) = Some \<lparr>width = WIDTH, height = HEIGHT\<rparr>"
  "durationSec (initial_page g) = Num 6"
  "fps (initial_page g) = Num 30"
  "state (initial_page g) = Idle"
  "chunksRef (initial_page g) = []"
  "effects (initial_page g) = []"
  by (simp_all add: initial_page_def)

lemma demo_Done:
  "state (snd (handleRecord demo_browser (initial_page demo_globals)))
     = Done ''blob:demo'' 5 ''youtube-720p-2026-11-02T03-15-27-123Z.webm'' (Num 6000)"
  using demo_success [of "initial_page demo_globals" "''video/webm;codecs=vp8,opus''"]
  by (simp add: initial_page_fields demo_supported durationMs_6)

lemma demo_trace:
  assumes "supportedMime p = Some mime" and "canvasRef p \<noteq> None"
  shows "\<exists>frames. list_all drawn frames \<and>
    trace demo_browser p =
      [CaptureStream \<lparr>width = WIDTH, height = HEIGHT\<rparr> (fps p),
       NewMediaRecorder (MediaStream 1) mime 4000000,
       SetState (Recording (Num 5000)),
       RecorderStart 100,
       StartAnimation (durationMs (durationSec p)) (title p) (subtitle p) (theme p),
       SetTimeout (durationMs (durationSec p))]
      @ frames @
      [RecorderStop, StopAnimation, SetState Processing,
       NewBlob [Blob [26, 69, 223] ''video/webm'', Blob [163, 129] ''video/webm''] mime,
       CreateObjectURL (Blob [26, 69, 223, 163, 129] mime),
       SetState (Done ''blob:demo'' 5 ''youtube-720p-2026-11-02T03-15-27-123Z.webm''
         (durationMs (durationSec p)))]"
  using assms
  by (cases demo_browser p rule: handleRecord_cases)
     (auto simp: demo_fields demo_delivered demo_fileName blob_size_def newBlob_def)

lemma failing_try:
  "fst (handleRecord_try failing_browser (initial_page demo_globals))
     = Threw (Thrown (Some ''NotSupportedError''))"
  by (simp add: handleRecord_try_def startRecording_def Let_def initial_page_fields
      demo_supported failing_browser_def demo_browser_def)

subsection \<open>Projections of a trace\<close>

lemma not_drawn [simp]:
  "\<not> drawn (SetState s)" "\<not> drawn (CaptureStream cv f)" "\<not> drawn (NewMediaRecorder strm m r)"
  "\<not> drawn (RecorderStart n)" "\<not> drawn (StartAnimation d t u th)" "\<not> drawn (SetTimeout d)"
  "\<not> drawn RecorderStop" "\<not> drawn StopAnimation" "\<not> drawn (NewBlob cs m)"
  "\<not> drawn (CreateObjectURL bl)"
  by (simp_all add: drawn_def)

lemma drawn_only [simp]:
  assumes "list_all drawn fs"
  shows "SetState s \<notin> set fs" "CaptureStream cv f \<notin> set fs"
    "NewMediaRecorder strm m r \<notin> set fs" "SetTimeout d \<notin> set fs"
    "StartAnimation d t u th \<notin> set fs" "NewBlob cs m \<notin> set fs"
    "RecorderStop \<notin> set fs" "StopAnimation \<notin> set fs"
  using assms not_drawn by (auto simp: list_all_iff)

lemma drawn_projections [simp]:
  "list_all drawn fs \<Longrightarrow> statesSet fs = []"
  "list_all drawn fs \<Longrightarrow> bitrates fs = []"
  "list_all drawn fs \<Longrightarrow> captureRates fs = []"
  by (induction fs)
     (auto simp: statesSet_def bitrates_def captureRates_def drawn_def split: effect.splits)

lemma projections_append [simp]:
  "statesSet (xs @ ys) = statesSet xs @ statesSet ys"
  "bitrates (xs @ ys) = bitrates xs @ bitrates ys"
  "captureRates (xs @ ys) = captureRates xs @ captureRates ys"
  by (simp_all add: statesSet_def bitrates_def captureRates_def)

lemma projections_Cons [simp]:
  "statesSet (e # es) = (case e of SetState s \<Rightarrow> [s] | _ \<Rightarrow> []) @ statesSet es"
  "bitrates (e # es) = (case e of NewMediaRecorder s m r \<Rightarrow> [r] | _ \<Rightarrow> []) @ bitrates es"
  "captureRates (e # es) = (case e of CaptureStream cv f \<Rightarrow> [f] | _ \<Rightarrow> []) @ captureRates es"
  "statesSet [] = []" "bitrates [] = []" "captureRates [] = []"
  by (simp_all add: statesSet_def bitrates_def captureRates_def)

lemma Done_projections:
  assumes "state (snd (handleRecord b p)) = Done url sz name dur"
  shows "bitrates (trace b p) = [4000000]"
    and "captureRates (trace b p) = [fps p]"
    and "statesSet (trace b p) =
           [Recording (Num (performanceNow b)), Processing, Done url sz name dur]"
  using assms by (cases b p rule: handleRecord_cases; simp)+

subsection \<open>The page after a run\<close>

lemma supportedMime_handleRecord [simp]:
  "supportedMime (snd (handleRecord b p)) = supportedMime p"
  by (simp add: handler_defs split: handler_splits)

lemma effects_handleRecord: "effects (snd (handleRecord b p)) = effects p @ trace b p"
  by (simp add: trace_def asyncFrames(1) handler_defs split: handler_splits)

lemma controls_steps [simp]:
  "controls (emit e p) = controls p"
  "controls (setState st p) = controls p"
  "controls (start d t u th now p) = controls p"
  "controls (stop p) = controls p"
  "controls (tick now p) = controls p"
  "controls (ondataavailable data p) = controls p"
  by (simp_all add: controls_def emit_def setState_def start_def stop_def tick_def
      ondataavailable_def requestAnimationFrame_def cancelIfSet_def cancelAnimationFrame_def
      Let_def split: option.splits prod.splits)

lemma controls_foldl_async [simp]: "controls (foldl async_step p evs) = controls p"
proof (induction evs arbitrary: p)
  case Nil
  then show ?case by simp
next
  case (Cons ev evs)
  then show ?case by (cases ev) simp_all
qed

lemma controls_update [simp]:
  "controls (p\<lparr>canvasRef := c\<rparr>) = controls p"
  "controls (p\<lparr>chunksRef := cs\<rparr>) = controls p"
  "controls (p\<lparr>mediaRecorderRef := r\<rparr>) = controls p"
  by (simp_all add: controls_def)

lemma controls_handleRecord: "controls (snd (handleRecord b p)) = controls p"
  by (simp add: handler_defs split: handler_splits)

lemma recorded_page_eq: "recorded_page = snd (handleRecord demo_browser (initial_page demo_globals))"
  by (simp add: recorded_page_def run_def disabled_def initial_page_fields)

lemma recorded_page_fields:
  "state recorded_page
     = Done ''blob:demo'' 5 ''youtube-720p-2026-11-02T03-15-27-123Z.webm'' (Num 6000)"
  "supportedMime recorded_page = Some ''video/webm;codecs=vp8,opus''"
  "canvasRef recorded_page \<noteq> None"
proof -
  show "state recorded_page
     = Done ''blob:demo'' 5 ''youtube-720p-2026-11-02T03-15-27-123Z.webm'' (Num 6000)"
    unfolding recorded_page_eq by (rule demo_Done)
  show "supportedMime recorded_page = Some ''video/webm;codecs=vp8,opus''"
    unfolding recorded_page_eq by (simp add: initial_page_fields demo_supported)
  show "canvasRef recorded_page \<noteq> None"
    unfolding recorded_page_eq using demo_Done
    by (cases demo_browser "initial_page demo_globals" rule: handleRecord_cases) simp_all
qed

subsection \<open>The chunk buffer\<close>

lemma blobsNonEmpty_append [simp]:
  "blobsNonEmpty (xs @ ys) = (blobsNonEmpty xs \<and> blobsNonEmpty ys)"
  by (simp add: blobsNonEmpty_def)

lemma blobsNonEmpty_drawn: "list_all drawn fs \<Longrightarrow> blobsNonEmpty fs"
  by (induction fs) (auto simp: blobsNonEmpty_def drawn_def split: effect.splits)

lemma blobsNonEmpty_Cons [simp]:
  "blobsNonEmpty (e # es) =
     ((case e of NewBlob cs m \<Rightarrow> list_all nonEmpty cs | _ \<Rightarrow> True) \<and> blobsNonEmpty es)"
  "blobsNonEmpty []"
  by (simp_all add: blobsNonEmpty_def)

lemma blobsNonEmpty_trace: "blobsNonEmpty (trace b p)"
  by (cases b p rule: handleRecord_cases)
     (simp_all add: blobsNonEmpty_drawn nonEmpty_delivered)

lemma chunks_handleRecord:
  "list_all nonEmpty (chunksRef p) \<Longrightarrow> list_all nonEmpty (chunksRef (snd (handleRecord b p)))"
  by (cases b p rule: handleRecord_cases) (simp_all add: nonEmpty_delivered)

lemma chunks_ui_step:
  assumes "list_all nonEmpty (chunksRef p)" and "blobsNonEmpty (effects p)"
  shows "list_all nonEmpty (chunksRef (ui_step p ev)) \<and> blobsNonEmpty (effects (ui_step p ev))"
proof (cases ev)
  case (ClickRecord b)
  with assms show ?thesis
    by (simp add: chunks_handleRecord effects_handleRecord blobsNonEmpty_trace)
next
  case (ClickReset stopThrows)
  with assms show ?thesis
    by (auto simp: reset_def Let_def blobsNonEmpty_def split: option.splits)
next
  case (RecorderData data)
  with assms show ?thesis
    by (auto simp: ondataavailable_def nonEmpty_def split: option.splits)
next
  case (Frame now)
  obtain fs where "effects (tick now p) = effects p @ fs" "list_all drawn fs"
    using effects_tick by blast
  with Frame assms show ?thesis
    by (simp add: blobsNonEmpty_drawn)
qed (use assms in simp_all)

lemma chunks_run:
  "list_all nonEmpty (chunksRef p) \<Longrightarrow> blobsNonEmpty (effects p)
    \<Longrightarrow> list_all nonEmpty (chunksRef (run p evs)) \<and> blobsNonEmpty (effects (run p evs))"
  unfolding run_def
proof (induction evs arbitrary: p)
  case Nil
  then show ?case by simp
next
  case (Cons ev evs)
  from chunks_ui_step [OF Cons.prems, of ev] Cons.IH [of "ui_step p ev"] show ?case
    by simp
qed

subsection \<open>The frames of a run that ends in the done state\<close>

lemma Done_frames:
  assumes "state (snd (handleRecord b p)) = Done url sz name dur"
  shows "\<exists>strm mime.
    trace b p =
      [CaptureStream \<lparr>width = WIDTH, height = HEIGHT\<rparr> (fps p),
       NewMediaRecorder strm mime 4000000,
       SetState (Recording (Num (performanceNow b))),
       RecorderStart 100,
       StartAnimation dur (title p) (subtitle p) (theme p),
       SetTimeout dur]
      @ framesDrawn
          \<lparr>animDurationMs = dur, animTitle = title p, animSubtitle = subtitle p,
             animTheme = theme p\<rparr>
          (startNow b) True (whileRecording b)
      @ [RecorderStop, StopAnimation, SetState Processing,
         NewBlob (delivered (whileRecording b)) mime,
         CreateObjectURL (newBlob (delivered (whileRecording b)) mime),
         SetState (Done url sz name dur)]"
  using assms
  by (auto simp: trace_def handler_defs effects_wait_start split: handler_splits if_splits)

section \<open>The claims\<close>

text \<open>
  C1 (as amended). The frame rate is configurable and the bit rate is not: the handler
  passes the \<open>fps\<close> state, which the frame-rate control sets, to \<open>captureStream\<close>, and
  it makes every recorder with the supported MIME type and the fixed video bit rate
  4,000,000, which no control changes.
\<close>

theorem capture_rate_selected_bitrate_fixed:
  "(\<forall>cv f. CaptureStream cv f \<in> set (trace b p) \<longrightarrow> f = fps p)
   \<and> (\<forall>cv f. CaptureStream cv f \<in> set (trace b (ui_step p (ChangeFps v))) \<longrightarrow> f = v)
   \<and> (\<forall>strm m r. NewMediaRecorder strm m r \<in> set (trace b p) \<longrightarrow>
         r = 4000000 \<and> supportedMime p = Some m)"
proof -
  have "\<forall>cv f. CaptureStream cv f \<in> set (trace b q) \<longrightarrow> f = fps q" for q
    by (cases b q rule: handleRecord_cases) auto
  moreover have "\<forall>strm m r. NewMediaRecorder strm m r \<in> set (trace b p) \<longrightarrow>
         r = 4000000 \<and> supportedMime p = Some m"
    by (cases b p rule: handleRecord_cases) auto
  moreover have "fps (ui_step p (ChangeFps v)) = v"
    by simp
  ultimately show ?thesis
    by metis
qed

text \<open>C1 on the sample run, the frame rate set to 60.\<close>

theorem capture_rate_selected_bitrate_fixed_witness:
  "CaptureStream \<lparr>width = 1280, height = 720\<rparr> (Num 60)
     \<in> set (trace demo_browser (ui_step (initial_page demo_globals) (ChangeFps (Num 60))))
   \<and> NewMediaRecorder (MediaStream 1) ''video/webm;codecs=vp8,opus'' 4000000
     \<in> set (trace demo_browser (initial_page demo_globals))
   \<and> supportedMime (initial_page demo_globals) = Some ''video/webm;codecs=vp8,opus''"
proof -
  let ?p = "initial_page demo_globals"
  let ?q = "ui_step ?p (ChangeFps (Num 60))"
  have p: "supportedMime ?p = Some ''video/webm;codecs=vp8,opus''" "canvasRef ?p \<noteq> None"
    by (simp_all add: initial_page_fields demo_supported)
  have q: "supportedMime ?q = Some ''video/webm;codecs=vp8,opus''" "canvasRef ?q \<noteq> None"
    by (simp_all add: initial_page_fields demo_supported)
  have "fps ?q = Num 60"
    by simp
  with demo_trace [OF q]
  have "CaptureStream \<lparr>width = 1280, height = 720\<rparr> (Num 60) \<in> set (trace demo_browser ?q)"
    by (auto simp: WIDTH_def HEIGHT_def)
  moreover from demo_trace [OF p]
  have "NewMediaRecorder (MediaStream 1) ''video/webm;codecs=vp8,opus'' 4000000
     \<in> set (trace demo_browser ?p)"
    by auto
  ultimately show ?thesis
    using capture_rate_selected_bitrate_fixed [of demo_browser ?p "Num 60"] by blast
qed

text \<open>
  C1, the claim as stated fails: a run on the first page and a run after the user has
  changed every control of the page (title, subtitle, duration, frame rate, theme) make
  their recorders with the same bit rate, while the capture frame rate follows the
  control.
\<close>

theorem bitrate_same_after_every_control_changed:
  "bitrates (trace demo_browser (initial_page demo_globals)) = [4000000]
   \<and> captureRates (trace demo_browser (initial_page demo_globals)) = [Num 30]
   \<and> bitrates (trace demo_browser changed_page) = [4000000]
   \<and> captureRates (trace demo_browser changed_page) = [Num 60]"
proof -
  let ?p = "initial_page demo_globals"
  have p: "supportedMime ?p = Some ''video/webm;codecs=vp8,opus''" "canvasRef ?p \<noteq> None"
    by (simp_all add: initial_page_fields demo_supported)
  have q: "supportedMime changed_page = Some ''video/webm;codecs=vp8,opus''"
    "canvasRef changed_page \<noteq> None"
    by (simp_all add: changed_page_def run_def initial_page_fields demo_supported)
  have "fps changed_page = Num 60"
    by (simp add: changed_page_def run_def)
  then show ?thesis
    using Done_projections(1,2) [OF demo_success [OF p]]
      Done_projections(1,2) [OF demo_success [OF q]]
    by (simp add: initial_page_fields)
qed

text \<open>
  C2 (as amended). The duration is bounded below, and only below, before use: every
  duration the handler gives to the animation or to the stop timer is the value
  \<open>Math.max(1000, Math.round(durationSec * 1000))\<close> of the \<open>durationSec\<close> state at the
  click, and for every \<open>durationSec\<close> other than \<open>NaN\<close> that value is at least 1000: it
  is a whole number of milliseconds from 1000 up, or \<open>Infinity\<close> when the product is too
  large for a double.
\<close>

theorem duration_at_least_one_second:
  "(\<forall>d. SetTimeout d \<in> set (trace b p) \<longrightarrow>
        d = js_max (Num 1000) (js_round (js_mul (durationSec p) (Num 1000))))
   \<and> (\<forall>d t u th. StartAnimation d t u th \<in> set (trace b p) \<longrightarrow>
        d = js_max (Num 1000) (js_round (js_mul (durationSec p) (Num 1000))))
   \<and> (durationSec p \<noteq> NaN \<longrightarrow>
        js_le (Num 1000) (js_max (Num 1000) (js_round (js_mul (durationSec p) (Num 1000)))))
   \<and> (durationSec p \<noteq> NaN \<longrightarrow>
        js_max (Num 1000) (js_round (js_mul (durationSec p) (Num 1000))) = PosInf
        \<or> (\<exists>n\<ge>1000.
              js_max (Num 1000) (js_round (js_mul (durationSec p) (Num 1000))) = Num (of_int n)))"
proof -
  have "\<forall>d. SetTimeout d \<in> set (trace b p) \<longrightarrow> d = durationMs (durationSec p)"
    by (cases b p rule: handleRecord_cases) auto
  moreover have "\<forall>d t u th. StartAnimation d t u th \<in> set (trace b p)
      \<longrightarrow> d = durationMs (durationSec p)"
    by (cases b p rule: handleRecord_cases) auto
  moreover have "durationSec p \<noteq> NaN \<longrightarrow> js_le (Num 1000) (durationMs (durationSec p))"
    using durationMs_shape [of "durationSec p"] by auto
  moreover have "durationSec p \<noteq> NaN \<longrightarrow>
        durationMs (durationSec p) = PosInf
        \<or> (\<exists>n\<ge>1000. durationMs (durationSec p) = Num (of_int n))"
    using durationMs_shape [of "durationSec p"] by blast
  ultimately show ?thesis
    unfolding durationMs_def by (intro conjI)
qed

text \<open>C2 on the sample run with the duration 100: the timer is set to 100000 ms.\<close>

theorem duration_at_least_one_second_witness:
  "SetTimeout (Num 100000)
     \<in> set (trace demo_browser (ui_step (initial_page demo_globals) (ChangeDuration (Num 100))))
   \<and> durationSec (ui_step (initial_page demo_globals) (ChangeDuration (Num 100))) \<noteq> NaN
   \<and> js_max (Num 1000) (js_round (js_mul (Num 100) (Num 1000))) = Num 100000
   \<and> js_le (Num 1000) (Num 100000)"
proof -
  let ?q = "ui_step (initial_page demo_globals) (ChangeDuration (Num 100))"
  have q: "supportedMime ?q = Some ''video/webm;codecs=vp8,opus''" "canvasRef ?q \<noteq> None"
    by (simp_all add: initial_page_fields demo_supported)
  have d: "durationSec ?q = Num 100"
    by simp
  from demo_trace [OF q]
  have "SetTimeout (durationMs (durationSec ?q)) \<in> set (trace demo_browser ?q)"
    by auto
  then have m: "SetTimeout (Num 100000) \<in> set (trace demo_browser ?q)"
    unfolding d durationMs_100 .
  note r = duration_at_least_one_second [of demo_browser ?q]
  from r m have v: "Num 100000 = js_max (Num 1000) (js_round (js_mul (durationSec ?q) (Num 1000)))"
    by blast
  have n: "durationSec ?q \<noteq> NaN"
    unfolding d by simp
  with r have "js_le (Num 1000) (js_max (Num 1000) (js_round (js_mul (durationSec ?q) (Num 1000))))"
    by blast
  then have "js_le (Num 1000) (Num 100000)"
    unfolding v [symmetric] .
  moreover from v have "js_max (Num 1000) (js_round (js_mul (Num 100) (Num 1000))) = Num 100000"
    unfolding d by simp
  ultimately show ?thesis
    using m n by (intro conjI)
qed

text \<open>
  C2, the claim as stated fails: the duration input declares the range of 2 to 60
  seconds, the user types 100, and the handler sets its timer to 100000 ms, which is
  outside that range; typing 1 gives 1000 ms, below it.
\<close>

theorem duration_outside_input_range:
  "SetTimeout (Num 100000)
     \<in> set (trace demo_browser (ui_step (initial_page demo_globals) (ChangeDuration (Num 100))))
   \<and> \<not> withinInputRange (Num 100000)
   \<and> durationMs (Num 1) = Num 1000
   \<and> \<not> withinInputRange (Num 1000)"
proof -
  let ?q = "ui_step (initial_page demo_globals) (ChangeDuration (Num 100))"
  have q: "supportedMime ?q = Some ''video/webm;codecs=vp8,opus''" "canvasRef ?q \<noteq> None"
    by (simp_all add: initial_page_fields demo_supported)
  have d: "durationSec ?q = Num 100"
    by simp
  from demo_trace [OF q]
  have "SetTimeout (durationMs (durationSec ?q)) \<in> set (trace demo_browser ?q)"
    by auto
  then have "SetTimeout (Num 100000) \<in> set (trace demo_browser ?q)"
    unfolding d durationMs_100 .
  moreover have "durationMs (Num 1) = Num 1000"
    by code_simp
  moreover have "\<not> withinInputRange (Num 100000)" "\<not> withinInputRange (Num 1000)"
    by (simp_all add: withinInputRange_def)
  ultimately show ?thesis
    by (intro conjI)
qed

text \<open>
  C3. Every failure of the setup ends in the error state with a message, and the handler
  never ends by throwing: the promise of \<open>handleRecord\<close> always resolves; without a
  supported type the state becomes the error with the message of line 156; without
  \<open>captureStream\<close>, or when it returns nothing, the error with the message of line
  165; whenever the \<open>try\<close> block throws, the error with the thrown value's message
  (or "Recording failed."); and the final state is always done or error.
\<close>

theorem failures_surface_as_error_state:
  "fst (handleRecord b p) = Returned
   \<and> (supportedMime p = None \<longrightarrow>
        state (snd (handleRecord b p)) = Error ''MediaRecorder not supported in this browser.'')
   \<and> (supportedMime p \<noteq> None \<and> canvasRef p \<noteq> None
        \<and> (captureStream b = None
           \<or> (\<exists>capture. captureStream b = Some capture
                 \<and> capture \<lparr>width = 1280, height = 720\<rparr> (fps p) = Inr None))
        \<longrightarrow> state (snd (handleRecord b p)) = Error ''Canvas captureStream not supported.'')
   \<and> (\<forall>err. fst (handleRecord_try b p) = Threw err \<longrightarrow>
        state (snd (handleRecord b p)) = Error (errorMessage err))
   \<and> ((\<exists>url sz name dur. state (snd (handleRecord b p)) = Done url sz name dur)
        \<or> (\<exists>m. state (snd (handleRecord b p)) = Error m))"
proof -
  have "fst (handleRecord b p) = Returned"
    by (simp add: handleRecord_def split: prod.splits completion.splits)
  moreover have "supportedMime p = None \<longrightarrow>
        state (snd (handleRecord b p)) = Error ''MediaRecorder not supported in this browser.''"
    by (cases b p rule: handleRecord_cases) simp_all
  moreover have "supportedMime p \<noteq> None \<and> canvasRef p \<noteq> None
        \<and> (captureStream b = None
           \<or> (\<exists>capture. captureStream b = Some capture
                 \<and> capture \<lparr>width = 1280, height = 720\<rparr> (fps p) = Inr None))
        \<longrightarrow> state (snd (handleRecord b p)) = Error ''Canvas captureStream not supported.''"
    by (cases b p rule: handleRecord_cases) (auto simp: WIDTH_def HEIGHT_def)
  moreover have "\<forall>err. fst (handleRecord_try b p) = Threw err \<longrightarrow>
        state (snd (handleRecord b p)) = Error (errorMessage err)"
    by (cases b p rule: handleRecord_cases) simp_all
  moreover have "(\<exists>url sz name dur. state (snd (handleRecord b p)) = Done url sz name dur)
        \<or> (\<exists>m. state (snd (handleRecord b p)) = Error m)"
    by (cases b p rule: handleRecord_cases) simp_all
  ultimately show ?thesis
    by blast
qed

text \<open>C3 on the browser whose recorder constructor throws a NotSupportedError.\<close>

theorem failures_surface_as_error_state_witness:
  "fst (handleRecord_try failing_browser (initial_page demo_globals))
     = Threw (Thrown (Some ''NotSupportedError''))
   \<and> fst (handleRecord failing_browser (initial_page demo_globals)) = Returned
   \<and> state (snd (handleRecord failing_browser (initial_page demo_globals)))
     = Error ''NotSupportedError''"
  using failures_surface_as_error_state [of failing_browser "initial_page demo_globals"]
    failing_try
  by (simp add: errorMessage_def)

text \<open>
  C4. The output resolution is always 1280 by 720: whenever the handler calls
  \<open>captureStream\<close>, the canvas it calls it on is 1280 wide and 720 high, whatever size
  it had before; and in every run that makes a recorder, that call on the 1280 by 720
  canvas is the first call of the run, and the canvas still has that size at the end.
\<close>

theorem canvas_720p_before_capture:
  "(\<forall>cv f. CaptureStream cv f \<in> set (trace b p) \<longrightarrow> width cv = 1280 \<and> height cv = 720)
   \<and> (\<forall>strm m r. NewMediaRecorder strm m r \<in> set (trace b p) \<longrightarrow>
        (\<exists>f rest. trace b p =
            CaptureStream \<lparr>width = 1280, height = 720\<rparr> f # NewMediaRecorder strm m r # rest)
        \<and> canvasRef (snd (handleRecord b p)) = Some \<lparr>width = 1280, height = 720\<rparr>)"
  by (cases b p rule: handleRecord_cases) (auto simp: WIDTH_def HEIGHT_def)

text \<open>C4 on the sample run, from a canvas that was 300 by 150.\<close>

theorem canvas_720p_before_capture_witness:
  "NewMediaRecorder (MediaStream 1) ''video/webm;codecs=vp8,opus'' 4000000
     \<in> set (trace demo_browser
         ((initial_page demo_globals)\<lparr>canvasRef := Some \<lparr>width = 300, height = 150\<rparr>\<rparr>))
   \<and> canvasRef (snd (handleRecord demo_browser
        ((initial_page demo_globals)\<lparr>canvasRef := Some \<lparr>width = 300, height = 150\<rparr>\<rparr>)))
      = Some \<lparr>width = 1280, height = 720\<rparr>"
proof -
  let ?p = "(initial_page demo_globals)\<lparr>canvasRef := Some \<lparr>width = 300, height = 150\<rparr>\<rparr>"
  have "supportedMime ?p = Some ''video/webm;codecs=vp8,opus''" and "canvasRef ?p \<noteq> None"
    by (simp_all add: initial_page_fields demo_supported)
  from demo_trace [OF this]
  have "NewMediaRecorder (MediaStream 1) ''video/webm;codecs=vp8,opus'' 4000000
     \<in> set (trace demo_browser ?p)"
    by auto
  with canvas_720p_before_capture [of demo_browser ?p] show ?thesis
    by blast
qed

text \<open>
  C5. When the duration has elapsed the handler stops the recorder and the animation
  and only then assembles the chunks: a run that ends in the done state consists of the
  calls up to the setting of the timer, none of which stops anything or makes a blob,
  the frames drawn during the wait, and then, in this order, \<open>recorder.stop()\<close>,
  \<open>stop()\<close>, the processing state, the blob made of the accumulated chunks, its object
  URL and the done state, which carries that URL and the size of that blob. At the end
  no animation frame is pending and \<open>rafRef\<close> is null.
\<close>

theorem stop_then_assemble:
  assumes "state (snd (handleRecord b p)) = Done url sz name dur"
  shows "\<exists>pre frames chunks mime.
      trace b p = pre @ [SetTimeout dur] @ frames @
        [RecorderStop, StopAnimation, SetState Processing, NewBlob chunks mime,
         CreateObjectURL (newBlob chunks mime), SetState (Done url sz name dur)]
      \<and> list_all drawn frames
      \<and> RecorderStop \<notin> set pre \<and> StopAnimation \<notin> set pre
      \<and> (\<forall>cs m. NewBlob cs m \<notin> set pre)
      \<and> chunks = chunksRef (snd (handleRecord b p))
      \<and> createObjectURL b (newBlob chunks mime) = Inr url
      \<and> sz = blob_size (newBlob chunks mime)
      \<and> rafRef (snd (handleRecord b p)) = None
      \<and> pendingFrame (snd (handleRecord b p)) = None"
  using assms
proof (cases b p rule: handleRecord_cases)
  case (finished mime cv capture strm url' frames)
  let ?pre = "[CaptureStream \<lparr>width = WIDTH, height = HEIGHT\<rparr> (fps p),
     NewMediaRecorder strm mime 4000000, SetState (Recording (Num (performanceNow b))),
     RecorderStart 100,
     StartAnimation (durationMs (durationSec p)) (title p) (subtitle p) (theme p)]"
  from finished assms show ?thesis
    by (intro exI [of _ ?pre] exI [of _ frames]
          exI [of _ "delivered (whileRecording b)"] exI [of _ mime]) simp
qed simp_all

text \<open>C5 on the sample run: the blob of five bytes is made after both stops.\<close>

theorem stop_then_assemble_witness:
  "state (snd (handleRecord demo_browser (initial_page demo_globals)))
     = Done ''blob:demo'' 5 ''youtube-720p-2026-11-02T03-15-27-123Z.webm'' (Num 6000)
   \<and> (\<exists>pre frames chunks mime.
        trace demo_browser (initial_page demo_globals) = pre @ [SetTimeout (Num 6000)] @ frames @
          [RecorderStop, StopAnimation, SetState Processing, NewBlob chunks mime,
           CreateObjectURL (newBlob chunks mime),
           SetState (Done ''blob:demo'' 5 ''youtube-720p-2026-11-02T03-15-27-123Z.webm''
             (Num 6000))]
        \<and> 5 = blob_size (newBlob chunks mime))
   \<and> pendingFrame (snd (handleRecord demo_browser (initial_page demo_globals))) = None"
proof -
  note r = stop_then_assemble [OF demo_Done]
  from r have "\<exists>pre frames chunks mime.
        trace demo_browser (initial_page demo_globals) = pre @ [SetTimeout (Num 6000)] @ frames @
          [RecorderStop, StopAnimation, SetState Processing, NewBlob chunks mime,
           CreateObjectURL (newBlob chunks mime),
           SetState (Done ''blob:demo'' 5 ''youtube-720p-2026-11-02T03-15-27-123Z.webm''
             (Num 6000))]
        \<and> 5 = blob_size (newBlob chunks mime)"
    by blast
  moreover from r
  have "pendingFrame (snd (handleRecord demo_browser (initial_page demo_globals))) = None"
    by blast
  ultimately show ?thesis
    using demo_Done by (intro conjI)
qed

text \<open>
  C6. The duration of the done state is the requested one: in a run that ends in the
  done state, \<open>durationMs\<close> of that state is
  \<open>Math.max(1000, Math.round(durationSec * 1000))\<close> of the \<open>durationSec\<close> state, and the
  stop timer and the animation are both started with that same value and with no
  other. The animation loop uses it: \<open>start\<close> hands it to the frame callback; a frame
  that runs draws with the elapsed time and asks for the next frame exactly when the
  elapsed time is less than it; and between the setting of the timer and
  \<open>recorder.stop()\<close> the run draws exactly the frames of a loop with that duration. How
  long the wait lasts on the clock is the browser's timer and is not stated.
\<close>

theorem done_duration_is_requested:
  assumes "state (snd (handleRecord b p)) = Done url sz name dur"
  shows "dur = js_max (Num 1000) (js_round (js_mul (durationSec p) (Num 1000)))
       \<and> SetTimeout dur \<in> set (trace b p)
       \<and> StartAnimation dur (title p) (subtitle p) (theme p) \<in> set (trace b p)
       \<and> (\<forall>d. SetTimeout d \<in> set (trace b p) \<longrightarrow> d = dur)
       \<and> (\<forall>d t u th. StartAnimation d t u th \<in> set (trace b p) \<longrightarrow> d = dur)
       \<and> (\<forall>t u th now q. \<exists>h. pendingFrame (start dur t u th now q) =
             Some (h, \<lparr>animDurationMs = dur, animTitle = t, animSubtitle = u, animTheme = th\<rparr>))
       \<and> (\<forall>t u th t0 now q.
             effects (tick now (start dur t u th t0 q)) =
               effects q @ [StartAnimation dur t u th, DrawFrame (js_sub (Num now) (Num t0)) t u th]
             \<and> (pendingFrame (tick now (start dur t u th t0 q)) \<noteq> None)
                 = js_less (js_sub (Num now) (Num t0)) dur)
       \<and> (\<exists>pre post.
             trace b p =
               pre @ [StartAnimation dur (title p) (subtitle p) (theme p), SetTimeout dur]
               @ framesDrawn
                   \<lparr>animDurationMs = dur, animTitle = title p, animSubtitle = subtitle p,
                      animTheme = theme p\<rparr>
                   (startNow b) True (whileRecording b)
               @ RecorderStop # post)"
proof -
  have "\<forall>t u th now q. \<exists>h. pendingFrame (start dur t u th now q) =
      Some (h, \<lparr>animDurationMs = dur, animTitle = t, animSubtitle = u, animTheme = th\<rparr>)"
    by (simp add: start_state)
  moreover have "\<forall>t u th t0 now q.
      effects (tick now (start dur t u th t0 q)) =
        effects q @ [StartAnimation dur t u th, DrawFrame (js_sub (Num now) (Num t0)) t u th]
      \<and> (pendingFrame (tick now (start dur t u th t0 q)) \<noteq> None)
          = js_less (js_sub (Num now) (Num t0)) dur"
    using tick_pending [OF start_state(1)] by (simp add: start_state)
  moreover have "dur = durationMs (durationSec p)
       \<and> SetTimeout dur \<in> set (trace b p)
       \<and> StartAnimation dur (title p) (subtitle p) (theme p) \<in> set (trace b p)
       \<and> (\<forall>d. SetTimeout d \<in> set (trace b p) \<longrightarrow> d = dur)
       \<and> (\<forall>d t u th. StartAnimation d t u th \<in> set (trace b p) \<longrightarrow> d = dur)"
    using assms by (cases b p rule: handleRecord_cases) auto
  moreover from Done_frames [OF assms] obtain strm mime where
    "trace b p =
       [CaptureStream \<lparr>width = WIDTH, height = HEIGHT\<rparr> (fps p),
        NewMediaRecorder strm mime 4000000,
        SetState (Recording (Num (performanceNow b))),
        RecorderStart 100]
       @ [StartAnimation dur (title p) (subtitle p) (theme p), SetTimeout dur]
       @ framesDrawn
           \<lparr>animDurationMs = dur, animTitle = title p, animSubtitle = subtitle p,
              animTheme = theme p\<rparr>
           (startNow b) True (whileRecording b)
       @ RecorderStop #
         [StopAnimation, SetState Processing,
          NewBlob (delivered (whileRecording b)) mime,
          CreateObjectURL (newBlob (delivered (whileRecording b)) mime),
          SetState (Done url sz name dur)]"
    by auto
  then have "\<exists>pre post.
      trace b p =
        pre @ [StartAnimation dur (title p) (subtitle p) (theme p), SetTimeout dur]
        @ framesDrawn
            \<lparr>animDurationMs = dur, animTitle = title p, animSubtitle = subtitle p,
               animTheme = theme p\<rparr>
            (startNow b) True (whileRecording b)
        @ RecorderStop # post"
    by blast
  ultimately show ?thesis
    unfolding durationMs_def by (intro conjI) blast+
qed

text \<open>
  C6 on two sample runs with frames 16, 6001 and 6018 ms after the start: ten seconds
  asked for give 10000 ms everywhere and all three frames are drawn; the six seconds of
  the first page give 6000 ms, and the frame after 6001 ms is the last one drawn.
\<close>

theorem done_duration_is_requested_witness:
  "state (snd (handleRecord demo_browser
       (ui_step (initial_page demo_globals) (ChangeDuration (Num 10)))))
     = Done ''blob:demo'' 5 ''youtube-720p-2026-11-02T03-15-27-123Z.webm'' (Num 10000)
   \<and> js_max (Num 1000) (js_round (js_mul (Num 10) (Num 1000))) = Num 10000
   \<and> (\<exists>pre post t u th.
        trace demo_browser (ui_step (initial_page demo_globals) (ChangeDuration (Num 10))) =
          pre @ [StartAnimation (Num 10000) t u th, SetTimeout (Num 10000),
                 DrawFrame (Num 16) t u th, DrawFrame (Num 6001) t u th,
                 DrawFrame (Num 6018) t u th, RecorderStop] @ post)
   \<and> state (snd (handleRecord demo_browser (initial_page demo_globals)))
     = Done ''blob:demo'' 5 ''youtube-720p-2026-11-02T03-15-27-123Z.webm'' (Num 6000)
   \<and> (\<exists>pre post t u th.
        trace demo_browser (initial_page demo_globals) =
          pre @ [StartAnimation (Num 6000) t u th, SetTimeout (Num 6000),
                 DrawFrame (Num 16) t u th, DrawFrame (Num 6001) t u th, RecorderStop] @ post)"
proof -
  let ?p = "initial_page demo_globals"
  let ?q = "ui_step ?p (ChangeDuration (Num 10))"
  have q: "supportedMime ?q = Some ''video/webm;codecs=vp8,opus''" "canvasRef ?q \<noteq> None"
    by (simp_all add: initial_page_fields demo_supported)
  have d: "durationSec ?q = Num 10"
    by simp
  have t: "startNow demo_browser = 5001"
    by (simp add: demo_browser_def)
  have Q: "state (snd (handleRecord demo_browser ?q))
     = Done ''blob:demo'' 5 ''youtube-720p-2026-11-02T03-15-27-123Z.webm'' (Num 10000)"
    using demo_success [OF q] unfolding d durationMs_10 .
  note rq = done_duration_is_requested [OF Q]
  note rp = done_duration_is_requested [OF demo_Done]
  from rq have v: "js_max (Num 1000) (js_round (js_mul (Num 10) (Num 1000))) = Num 10000"
    unfolding d by simp
  from rq obtain pre post where
    "trace demo_browser ?q =
       pre @ [StartAnimation (Num 10000) (title ?q) (subtitle ?q) (theme ?q), SetTimeout (Num 10000)]
       @ framesDrawn
           \<lparr>animDurationMs = Num 10000, animTitle = title ?q, animSubtitle = subtitle ?q,
              animTheme = theme ?q\<rparr>
           (startNow demo_browser) True (whileRecording demo_browser)
       @ RecorderStop # post"
    by blast
  then have "trace demo_browser ?q =
       pre @ [StartAnimation (Num 10000) (title ?q) (subtitle ?q) (theme ?q), SetTimeout (Num 10000),
              DrawFrame (Num 16) (title ?q) (subtitle ?q) (theme ?q),
              DrawFrame (Num 6001) (title ?q) (subtitle ?q) (theme ?q),
              DrawFrame (Num 6018) (title ?q) (subtitle ?q) (theme ?q), RecorderStop] @ post"
    unfolding t demo_frames_10000 by simp
  then have fq: "\<exists>pre post t u th.
        trace demo_browser ?q =
          pre @ [StartAnimation (Num 10000) t u th, SetTimeout (Num 10000),
                 DrawFrame (Num 16) t u th, DrawFrame (Num 6001) t u th,
                 DrawFrame (Num 6018) t u th, RecorderStop] @ post"
    by blast
  from rp obtain pre' post' where
    "trace demo_browser ?p =
       pre' @ [StartAnimation (Num 6000) (title ?p) (subtitle ?p) (theme ?p), SetTimeout (Num 6000)]
       @ framesDrawn
           \<lparr>animDurationMs = Num 6000, animTitle = title ?p, animSubtitle = subtitle ?p,
              animTheme = theme ?p\<rparr>
           (startNow demo_browser) True (whileRecording demo_browser)
       @ RecorderStop # post'"
    by blast
  then have "trace demo_browser ?p =
       pre' @ [StartAnimation (Num 6000) (title ?p) (subtitle ?p) (theme ?p), SetTimeout (Num 6000),
              DrawFrame (Num 16) (title ?p) (subtitle ?p) (theme ?p),
              DrawFrame (Num 6001) (title ?p) (subtitle ?p) (theme ?p), RecorderStop] @ post'"
    unfolding t demo_frames_6000 by simp
  then have fp: "\<exists>pre post t u th.
        trace demo_browser ?p =
          pre @ [StartAnimation (Num 6000) t u th, SetTimeout (Num 6000),
                 DrawFrame (Num 16) t u th, DrawFrame (Num 6001) t u th, RecorderStop] @ post"
    by blast
  from Q v fq demo_Done fp show ?thesis
    by (intro conjI)
qed

text \<open>
  C7 (as amended). The UI state has exactly the five cases idle, recording, processing,
  done and error, with the URL, size, file name and duration in the done case and the
  message in the error case; and within one run the record handler sets the state
  forward along recording \<rightarrow> processing \<rightarrow> done, or to error at any point and then
  nothing more: the states it sets are error alone, or recording then error, or
  recording, processing, error, or recording, processing, done, the last being the
  state of the page at the end. The state the run starts from need not be idle.
\<close>

theorem handler_sets_states_forward:
  "(s = Idle \<or> (\<exists>t. s = Recording t) \<or> s = Processing
      \<or> (\<exists>url sz name dur. s = Done url sz name dur) \<or> (\<exists>m. s = Error m))
   \<and> (\<exists>t m url sz name dur.
        statesSet (trace b p) = [Error m]
        \<or> statesSet (trace b p) = [Recording t, Error m]
        \<or> statesSet (trace b p) = [Recording t, Processing, Error m]
        \<or> statesSet (trace b p) = [Recording t, Processing, Done url sz name dur])
   \<and> sorted_wrt alongChain (statesSet (trace b p))
   \<and> state (snd (handleRecord b p)) = last (statesSet (trace b p))"
proof -
  have "s = Idle \<or> (\<exists>t. s = Recording t) \<or> s = Processing
      \<or> (\<exists>url sz name dur. s = Done url sz name dur) \<or> (\<exists>m. s = Error m)"
    by (cases s) simp_all
  moreover have "\<exists>t m url sz name dur.
        statesSet (trace b p) = [Error m]
        \<or> statesSet (trace b p) = [Recording t, Error m]
        \<or> statesSet (trace b p) = [Recording t, Processing, Error m]
        \<or> statesSet (trace b p) = [Recording t, Processing, Done url sz name dur]"
    by (cases b p rule: handleRecord_cases) simp_all
  moreover have "sorted_wrt alongChain (statesSet (trace b p))"
    by (cases b p rule: handleRecord_cases) (simp_all add: alongChain_def)
  moreover have "state (snd (handleRecord b p)) = last (statesSet (trace b p))"
    by (cases b p rule: handleRecord_cases) simp_all
  ultimately show ?thesis
    by (intro conjI)
qed

text \<open>
  C7, the claim as stated fails: after a first recording the page is in the done state,
  the record button is enabled, and a second click makes the handler set the state to
  recording, a move from done back to recording, which is not forward along the chain.
\<close>

theorem second_run_moves_done_to_recording:
  "state recorded_page
     = Done ''blob:demo'' 5 ''youtube-720p-2026-11-02T03-15-27-123Z.webm'' (Num 6000)
   \<and> \<not> disabled recorded_page
   \<and> statesSet (trace demo_browser recorded_page)
     = [Recording (Num 5000), Processing,
        Done ''blob:demo'' 5 ''youtube-720p-2026-11-02T03-15-27-123Z.webm'' (Num 6000)]
   \<and> \<not> alongChain (state recorded_page) (Recording (Num 5000))"
proof -
  note f = recorded_page_fields
  have "controls recorded_page = controls (initial_page demo_globals)"
    unfolding recorded_page_eq by (rule controls_handleRecord)
  then have "durationSec recorded_page = Num 6"
    by (simp add: controls_def initial_page_fields)
  with demo_success [OF f(2,3)]
  have "state (snd (handleRecord demo_browser recorded_page))
     = Done ''blob:demo'' 5 ''youtube-720p-2026-11-02T03-15-27-123Z.webm'' (Num 6000)"
    by (simp add: durationMs_6)
  from Done_projections(3) [OF this]
  have "statesSet (trace demo_browser recorded_page)
     = [Recording (Num 5000), Processing,
        Done ''blob:demo'' 5 ''youtube-720p-2026-11-02T03-15-27-123Z.webm'' (Num 6000)]"
    by (simp add: demo_fields)
  moreover have "\<not> disabled recorded_page"
    by (simp add: disabled_def f(1))
  moreover have "\<not> alongChain (state recorded_page) (Recording (Num 5000))"
    by (simp add: alongChain_def f(1))
  ultimately show ?thesis
    using f(1) by (intro conjI)
qed

text \<open>
  C8. The file is offered for download under a name made from the time stamp: in a run
  that ends in the done state, the file name of that state is "youtube-720p-", then the
  ISO date-time of the run with every colon and every dot replaced by a hyphen, then
  ".webm"; it ends in ".webm" and has no colon; and the download link that is rendered
  has the URL of the done state as its \<open>href\<close> and exactly that name as its \<open>download\<close>.
\<close>

theorem download_name_from_timestamp:
  assumes "state (snd (handleRecord b p)) = Done url sz name dur"
  shows "name = ''youtube-720p-''
           @ replaceAll CHR ''.'' CHR ''-'' (replaceAll CHR '':'' CHR ''-'' (toISOString b))
           @ ''.webm''
       \<and> drop (length name - 5) name = ''.webm''
       \<and> CHR '':'' \<notin> set name
       \<and> downloadLink (snd (handleRecord b p)) = Some (url, name)"
proof -
  have "name = fileName (toISOString b)"
    using assms by (cases b p rule: handleRecord_cases) simp_all
  moreover have "CHR '':'' \<notin> set (fileName stamp)" for stamp
    by (auto simp: fileName_def replaceAll_def)
  moreover have "downloadLink (snd (handleRecord b p)) = Some (url, name)"
    using assms by (simp add: downloadLink_def)
  ultimately show ?thesis
    by (simp add: fileName_def)
qed

text \<open>C8 on the sample run, started at 2026-11-02T03:15:27.123Z.\<close>

theorem download_name_from_timestamp_witness:
  "state (snd (handleRecord demo_browser (initial_page demo_globals)))
     = Done ''blob:demo'' 5 ''youtube-720p-2026-11-02T03-15-27-123Z.webm'' (Num 6000)
   \<and> downloadLink (snd (handleRecord demo_browser (initial_page demo_globals)))
     = Some (''blob:demo'', ''youtube-720p-2026-11-02T03-15-27-123Z.webm'')"
proof -
  from download_name_from_timestamp [OF demo_Done]
  have "downloadLink (snd (handleRecord demo_browser (initial_page demo_globals)))
     = Some (''blob:demo'', ''youtube-720p-2026-11-02T03-15-27-123Z.webm'')"
    by blast
  with demo_Done show ?thesis
    by (intro conjI)
qed

text \<open>
  C9. The recording MIME type follows a fixed order of preference: in a browser
  (\<open>window\<close> defined), it is the VP9 type if \<open>MediaRecorder\<close> supports it, otherwise the
  VP8 type if supported, otherwise plain \<open>video/webm\<close> if supported, and it is null
  exactly when \<open>MediaRecorder\<close> is absent or supports none of the three.
\<close>

theorem supported_preference_order:
  assumes "windowDefined g"
  shows "(mediaRecorderGlobal g = Some isSup \<and> isSup ''video/webm;codecs=vp9,opus''
            \<longrightarrow> supported g = Some ''video/webm;codecs=vp9,opus'')
       \<and> (mediaRecorderGlobal g = Some isSup \<and> \<not> isSup ''video/webm;codecs=vp9,opus''
            \<and> isSup ''video/webm;codecs=vp8,opus''
            \<longrightarrow> supported g = Some ''video/webm;codecs=vp8,opus'')
       \<and> (mediaRecorderGlobal g = Some isSup \<and> \<not> isSup ''video/webm;codecs=vp9,opus''
            \<and> \<not> isSup ''video/webm;codecs=vp8,opus'' \<and> isSup ''video/webm''
            \<longrightarrow> supported g = Some ''video/webm'')
       \<and> (supported g = None \<longleftrightarrow>
            (mediaRecorderGlobal g = None
             \<or> (\<exists>f. mediaRecorderGlobal g = Some f \<and> \<not> f ''video/webm;codecs=vp9,opus''
                    \<and> \<not> f ''video/webm;codecs=vp8,opus'' \<and> \<not> f ''video/webm'')))"
  using assms by (auto simp: supported_def Let_def split: option.splits)

text \<open>C9 on the sample browser, which has VP8 and not VP9.\<close>

theorem supported_preference_order_witness:
  "windowDefined demo_globals
   \<and> mediaRecorderGlobal demo_globals = Some (\<lambda>m. m \<noteq> ''video/webm;codecs=vp9,opus'')
   \<and> supported demo_globals = Some ''video/webm;codecs=vp8,opus''"
  using supported_preference_order
    [of demo_globals "\<lambda>m. m \<noteq> ''video/webm;codecs=vp9,opus''"]
  by (simp add: demo_globals_def)

text \<open>
  C10. The chunk buffer never holds an empty chunk: the handler of \<open>dataavailable\<close>
  appends the chunk of an event only when its size is greater than zero; \<open>reset\<close>
  empties the buffer; a run of \<open>handleRecord\<close> that makes a recorder starts from an
  empty buffer, so that whatever the buffer held before, the buffer after the run and
  the blob the run assembles hold only chunks delivered during that run, none of them
  empty; and after any sequence of clicks, changes, recorder events and animation
  frames from the first page on, every chunk in the buffer is non-empty and so is every
  chunk of every blob that was assembled.
\<close>

theorem chunk_buffer_never_holds_empty_chunk:
  "chunksRef (ondataavailable data p) =
     (case data of
        None \<Rightarrow> chunksRef p
      | Some d \<Rightarrow> if 0 < blob_size d then chunksRef p @ [d] else chunksRef p)
   \<and> chunksRef (snd (reset stopThrows p)) = []
   \<and> (\<forall>strm m r. NewMediaRecorder strm m r \<in> set (trace b p) \<longrightarrow>
        set (chunksRef (snd (handleRecord b p))) \<subseteq> set (delivered (whileRecording b)))
   \<and> (\<forall>cs m. NewBlob cs m \<in> set (trace b p) \<longrightarrow>
        cs = delivered (whileRecording b) \<and> list_all nonEmpty cs)
   \<and> list_all nonEmpty (chunksRef (run (initial_page g) evs))
   \<and> blobsNonEmpty (effects (run (initial_page g) evs))"
proof -
  have "chunksRef (ondataavailable data p) =
     (case data of
        None \<Rightarrow> chunksRef p
      | Some d \<Rightarrow> if 0 < blob_size d then chunksRef p @ [d] else chunksRef p)"
    by (simp add: ondataavailable_def split: option.splits)
  moreover have "chunksRef (snd (reset stopThrows p)) = []"
    by (simp add: reset_def Let_def split: option.splits)
  moreover have "\<forall>strm m r. NewMediaRecorder strm m r \<in> set (trace b p) \<longrightarrow>
        set (chunksRef (snd (handleRecord b p))) \<subseteq> set (delivered (whileRecording b))"
    by (cases b p rule: handleRecord_cases) auto
  moreover have "\<forall>cs m. NewBlob cs m \<in> set (trace b p) \<longrightarrow>
        cs = delivered (whileRecording b) \<and> list_all nonEmpty cs"
    by (cases b p rule: handleRecord_cases) (auto simp: nonEmpty_delivered)
  moreover have "list_all nonEmpty (chunksRef (run (initial_page g) evs))
     \<and> blobsNonEmpty (effects (run (initial_page g) evs))"
    by (rule chunks_run) (simp_all add: initial_page_fields blobsNonEmpty_def)
  ultimately show ?thesis
    by (intro conjI) blast+
qed

text \<open>
  C10 on the sample run, in which the recorder also delivers an empty chunk and an
  event without data: the blob is made of the two chunks that have bytes.
\<close>

theorem chunk_buffer_never_holds_empty_chunk_witness:
  "NewBlob [Blob [26, 69, 223] ''video/webm'', Blob [163, 129] ''video/webm'']
       ''video/webm;codecs=vp8,opus''
     \<in> set (trace demo_browser (initial_page demo_globals))
   \<and> delivered (whileRecording demo_browser)
     = [Blob [26, 69, 223] ''video/webm'', Blob [163, 129] ''video/webm'']
   \<and> list_all nonEmpty (chunksRef recorded_page)"
proof -
  let ?p = "initial_page demo_globals"
  have p: "supportedMime ?p = Some ''video/webm;codecs=vp8,opus''" "canvasRef ?p \<noteq> None"
    by (simp_all add: initial_page_fields demo_supported)
  from demo_trace [OF p]
  have m: "NewBlob [Blob [26, 69, 223] ''video/webm'', Blob [163, 129] ''video/webm'']
       ''video/webm;codecs=vp8,opus'' \<in> set (trace demo_browser ?p)"
    by auto
  note r = chunk_buffer_never_holds_empty_chunk
    [of None ?p None demo_browser demo_globals "[ClickRecord demo_browser]"]
  from r m have "[Blob [26, 69, 223] ''video/webm'', Blob [163, 129] ''video/webm'']
      = delivered (whileRecording demo_browser)"
    by blast
  moreover from r have "list_all nonEmpty (chunksRef recorded_page)"
    unfolding recorded_page_def by blast
  ultimately show ?thesis
    using m by (intro conjI) simp_all
qed

end
